theory Spec2Isabelle
  imports Complex_Main
begin

section \<open>Data model\<close>

text \<open>
  A CAPTCHA as the generator's \<open>create()\<close> resolves it: the object literal
  \<open>{choices, answer, data}\<close>.
\<close>

record Challenge =
  choices :: "string list"
  answer :: string
  data :: string

text \<open>
  What a call can throw: a \<open>TypeError\<close> when \<open>this.captcha\<close> is still undefined
  and one of its properties is read, the rejection of the provider's
  \<open>popCaptcha()\<close> promise, or the rejection of the generator's \<open>create()\<close>.
\<close>

datatype error = TypeError | ProviderError | GeneratorError

text \<open>
  The authentication preferences of \<open>CaptchaAuthr\<close>. The counters and thresholds are
  JavaScript numbers; they are modelled as rationals (the defaults \<open>0.5\<close>, \<open>1\<close>, \<open>3\<close>
  and their small sums are exact in both), the timestamps as integers of milliseconds.
  \<open>customChecker\<close> and \<open>customChallenger\<close> are the two functions as a record holds them
  after its constructor has run: the supplied ones, or the defaults.
  The provider is not a field here: the outcome of its \<open>popCaptcha()\<close> is an argument of
  every operation that awaits it.
\<close>

record authPreferences =
  maxWrong :: rat
  dropWrongAfter :: int
  requiredAnswers :: rat
  resetOnWrong :: bool
  answerTimeout :: int
  onRegenWrong :: rat
  wrongOnTooLong :: rat
  tooFast :: int
  authTimeout :: int
  customChecker :: "string \<Rightarrow> string \<Rightarrow> bool"
  customChallenger :: "Challenge \<Rightarrow> string"

text \<open>
  The default checker of the \<open>AuthRecord\<close> constructor: both answers lower-cased, split
  into characters, sorted and compared. Characters are bytes here, so the definition is
  the source's on ASCII answers (the generator's letters are \<open>A\<close> to \<open>Z\<close>).
\<close>

definition toLowerCase :: "string \<Rightarrow> string" where
  "toLowerCase s =
     map (\<lambda>c. if (65::nat) \<le> of_char c \<and> of_char c \<le> (90::nat)
              then char_of (of_char c + (32::nat)) else c) s"

definition defaultChecker :: "string \<Rightarrow> string \<Rightarrow> bool" where
  "defaultChecker ans1 ans2 =
     (sort_key (of_char :: char \<Rightarrow> nat) (toLowerCase ans1)
        = sort_key (of_char :: char \<Rightarrow> nat) (toLowerCase ans2))"

text \<open>The defaults of the \<open>CaptchaAuthr\<close> constructor.\<close>

definition defaultPreferences :: authPreferences where
  "defaultPreferences =
     \<lparr> maxWrong = 3, dropWrongAfter = 10000, requiredAnswers = 1, resetOnWrong = True,
       answerTimeout = 60000, onRegenWrong = 1 / 2, wrongOnTooLong = 1 / 2,
       tooFast = 1 * 1000, authTimeout = 1000 * 60 * 30,
       customChecker = defaultChecker, customChallenger = data \<rparr>"

text \<open>
  An \<open>AuthRecord\<close>: \<open>authd\<close>, \<open>wrong\<close> and \<open>correct\<close> are the private fields
  \<open>_authd\<close>, \<open>_wrong\<close>, \<open>_correct\<close>; \<open>captcha\<close> is undefined (\<open>None\<close>) until the
  first \<open>genCaptcha\<close>. The preferences are shared by all records of one store and are
  passed to each operation.
\<close>

record AuthRecord =
  authd :: bool
  wrong :: rat
  correct :: rat
  lastLimitTime :: int
  lastDownloadTime :: int
  lastAuthTime :: int
  captcha :: "Challenge option"

text \<open>The constructor; \<open>now\<close> is what \<open>Date.now()\<close> returns.\<close>

definition newAuthRecord :: "int \<Rightarrow> AuthRecord" where
  "newAuthRecord now =
     \<lparr> authd = False, wrong = 0, correct = 0, lastLimitTime = 0,
       lastDownloadTime = now, lastAuthTime = 0, captcha = None \<rparr>"

section \<open>AuthRecord\<close>

definition expired :: "authPreferences \<Rightarrow> int \<Rightarrow> AuthRecord \<Rightarrow> bool" where
  "expired p now r = (lastAuthTime r \<noteq> 0 \<and> now - lastAuthTime r > authTimeout p)"

definition authenticate :: "int \<Rightarrow> AuthRecord \<Rightarrow> AuthRecord" where
  "authenticate now r =
     (if \<not> authd r then r\<lparr>authd := True, lastAuthTime := now\<rparr> else r)"

text \<open>The setter \<open>set correct(value)\<close>.\<close>

definition set_correct :: "authPreferences \<Rightarrow> int \<Rightarrow> rat \<Rightarrow> AuthRecord \<Rightarrow> AuthRecord" where
  "set_correct p now v r =
     (let r1 = r\<lparr>correct := v\<rparr>
      in if correct r1 \<ge> requiredAnswers p then authenticate now r1 else r1)"

definition isLimited :: "authPreferences \<Rightarrow> AuthRecord \<Rightarrow> bool" where
  "isLimited p r = (wrong r > maxWrong p)"

text \<open>The setter \<open>set wrong(value)\<close>.\<close>

definition set_wrong :: "authPreferences \<Rightarrow> int \<Rightarrow> rat \<Rightarrow> AuthRecord \<Rightarrow> AuthRecord" where
  "set_wrong p now v r =
     (if \<not> isLimited p r
      then (let r1 = r\<lparr>wrong := v\<rparr>
            in if isLimited p r1 then r1\<lparr>lastLimitTime := now\<rparr> else r1)
      else r)"

text \<open>
  The outcome of awaiting \<open>provider.popCaptcha()\<close>: the promise resolves with a
  challenge, and \<open>Date.now()\<close> then reads the given time, or it rejects.
  A call reads the clock more than once. The part of a call that runs before the awaited
  pop is synchronous and has one clock value, the argument \<open>now\<close> of each operation; the
  part after it has the clock value the resolved pop carries.
\<close>

datatype pop = Resolved Challenge int | Rejected

definition genCaptcha :: "pop \<Rightarrow> AuthRecord \<Rightarrow> error + AuthRecord" where
  "genCaptcha po r =
     (case po of
        Rejected \<Rightarrow> Inl ProviderError
      | Resolved c t \<Rightarrow> Inr (r\<lparr>captcha := Some c, lastDownloadTime := t\<rparr>))"

text \<open>
  \<open>checkAnswer\<close>: the record always has a checker, so the comparison with \<open>==\<close> is never
  reached; reading \<open>this.captcha.answer\<close> of an undefined captcha throws.
\<close>

definition checkAnswer :: "authPreferences \<Rightarrow> string \<Rightarrow> AuthRecord \<Rightarrow> error + bool" where
  "checkAnswer p ans r =
     (case captcha r of
        None \<Rightarrow> Inl TypeError
      | Some c \<Rightarrow> Inr (customChecker p ans (answer c)))"

definition getChallenge :: "authPreferences \<Rightarrow> AuthRecord \<Rightarrow> error + string" where
  "getChallenge p r =
     (case captcha r of
        None \<Rightarrow> Inl TypeError
      | Some c \<Rightarrow> Inr (customChallenger p c))"

definition tryDroppingWrong :: "authPreferences \<Rightarrow> int \<Rightarrow> AuthRecord \<Rightarrow> AuthRecord" where
  "tryDroppingWrong p now r =
     (if isLimited p r \<and> now - lastLimitTime r > dropWrongAfter p
      then r\<lparr>wrong := 0, lastDownloadTime := now\<rparr>
      else r)"

definition tookTooLong :: "authPreferences \<Rightarrow> int \<Rightarrow> AuthRecord \<Rightarrow> bool" where
  "tookTooLong p now r = (now - lastDownloadTime r > answerTimeout p)"

definition wasTooFast :: "authPreferences \<Rightarrow> int \<Rightarrow> AuthRecord \<Rightarrow> bool" where
  "wasTooFast p now r = (now - lastDownloadTime r < tooFast p)"

record info =
  info_required :: rat
  info_wrong :: rat
  info_maxWrong :: rat
  info_correct :: rat
  info_resets :: bool
  info_dropAfter :: int
  info_timeout :: int
  info_time :: int
  info_lastDownloadTime :: int
  info_lastLimitTime :: int
  info_onRegenWrong :: rat
  info_lastAuthTime :: int

definition getInfo :: "authPreferences \<Rightarrow> int \<Rightarrow> AuthRecord \<Rightarrow> info" where
  "getInfo p now r =
     \<lparr> info_required = requiredAnswers p, info_wrong = wrong r, info_maxWrong = maxWrong p,
       info_correct = correct r, info_resets = resetOnWrong p,
       info_dropAfter = dropWrongAfter p, info_timeout = answerTimeout p, info_time = now,
       info_lastDownloadTime = lastDownloadTime r, info_lastLimitTime = lastLimitTime r,
       info_onRegenWrong = onRegenWrong p, info_lastAuthTime = lastAuthTime r \<rparr>"

section \<open>CaptchaAuthr\<close>

text \<open>
  The store: the \<open>Map\<close> from subject id to record, and the time of the last sweep.
  Records are objects mutated in place, so an operation on the record of an id is an
  update of the map at that id.
\<close>

record CaptchaAuthr =
  map_store :: "string \<Rightarrow> AuthRecord option"
  lastOldCheck :: int

text \<open>
  The value under the \<open>captcha\<close> key of what \<open>tryAuth\<close> resolves: the state, the record's
  info and, when asked for, the challenge. The error result has the state only.
\<close>

record result =
  state :: string
  info :: "info option"
  challenge :: "string option"

definition genReturnValue ::
  "authPreferences \<Rightarrow> int \<Rightarrow> AuthRecord \<Rightarrow> string \<Rightarrow> bool \<Rightarrow> error + result" where
  "genReturnValue p now r st withQ =
     (if withQ
      then (case getChallenge p r of
              Inl e \<Rightarrow> Inl e
            | Inr q \<Rightarrow> Inr \<lparr>state = st, info = Some (getInfo p now r), challenge = Some q\<rparr>)
      else Inr \<lparr>state = st, info = Some (getInfo p now r), challenge = None\<rparr>)"

definition authSucceeded :: "result option \<Rightarrow> bool" where
  "authSucceeded stateVal = (case stateVal of None \<Rightarrow> False | Some c \<Rightarrow> state c = ''success'')"

definition deAuth :: "string \<Rightarrow> CaptchaAuthr \<Rightarrow> CaptchaAuthr" where
  "deAuth ident s = s\<lparr>map_store := (map_store s)(ident := None)\<rparr>"

text \<open>
  The two statements \<open>await rec.genCaptcha(); return this._genReturnValue(rec, st, true)\<close>
  that end most branches. The first component is what the branch returns or throws, the
  second the record as the branch leaves it: a rejected pop leaves the record as it was
  before the await, mutations included. The info's \<open>time\<close> is read right after
  \<open>lastDownloadTime\<close> was, in the same continuation: the same clock value.
\<close>

definition genCaptchaAndReturn ::
  "authPreferences \<Rightarrow> pop \<Rightarrow> AuthRecord \<Rightarrow> string \<Rightarrow> (error + result) \<times> AuthRecord" where
  "genCaptchaAndReturn p po r st =
     (case genCaptcha po r of
        Inl e \<Rightarrow> (Inl e, r)
      | Inr r1 \<Rightarrow> (genReturnValue p (lastDownloadTime r1) r1 st True, r1))"

text \<open>
  The handlers take the record found for the id (\<open>None\<close> when there is none) and return
  the outcome with the record the map holds for the id afterwards.
\<close>

definition handleNew ::
  "authPreferences \<Rightarrow> int \<Rightarrow> pop \<Rightarrow> AuthRecord option \<Rightarrow> (error + result) \<times> AuthRecord option" where
  "handleNew p now po rec =
     (case rec of
        None \<Rightarrow>
          (case genCaptcha po (newAuthRecord now) of
             Inl e \<Rightarrow> (Inl e, None)
           | Inr r1 \<Rightarrow> (genReturnValue p (lastDownloadTime r1) r1 ''new'' True, Some r1))
      | Some r \<Rightarrow>
          if isLimited p r
          then (let r1 = tryDroppingWrong p now r
                in if \<not> isLimited p r1
                   then (case genCaptchaAndReturn p po r1 ''new'' of
                           (out, r2) \<Rightarrow> (out, Some r2))
                   else (genReturnValue p now r1 ''new'' True, Some r1))
          else (genReturnValue p now r ''new'' True, Some r))"

definition handleRegen ::
  "authPreferences \<Rightarrow> int \<Rightarrow> pop \<Rightarrow> AuthRecord option \<Rightarrow> (error + result) \<times> AuthRecord option" where
  "handleRegen p now po rec =
     (case rec of
        Some r \<Rightarrow>
          (let r1 = set_wrong p now (wrong r + onRegenWrong p) r;
               r2 = tryDroppingWrong p now r1
           in if isLimited p r2
              then (genReturnValue p now r2 ''limit'' False, Some r2)
              else (case genCaptchaAndReturn p po r2 ''new'' of (out, r3) \<Rightarrow> (out, Some r3)))
      | None \<Rightarrow> handleNew p now po rec)"

definition handleAnswer ::
  "authPreferences \<Rightarrow> int \<Rightarrow> pop \<Rightarrow> AuthRecord option \<Rightarrow> string
     \<Rightarrow> (error + result) \<times> AuthRecord option" where
  "handleAnswer p now po rec ans =
     (if ans = ''regen'' then handleRegen p now po rec
      else
        (case rec of
           Some r \<Rightarrow>
             if isLimited p r
             then (let r1 = tryDroppingWrong p now r
                   in if isLimited p r1
                      then (genReturnValue p now r1 ''limit'' False, Some r1)
                      else (case genCaptchaAndReturn p po r1 ''new'' of
                              (out, r2) \<Rightarrow> (out, Some r2)))
             else if tookTooLong p now r
             then (let r1 = set_wrong p now (wrong r + wrongOnTooLong p) r
                   in if isLimited p r1
                      then (genReturnValue p now r1 ''limit'' False, Some r1)
                      else (case genCaptchaAndReturn p po r1 ''timeout'' of
                              (out, r2) \<Rightarrow> (out, Some r2)))
             else
               (case checkAnswer p ans r of
                  Inl e \<Rightarrow> (Inl e, Some r)
                | Inr ok \<Rightarrow>
                    if ok \<and> \<not> wasTooFast p now r
                    then (let r1 = set_correct p now (correct r + 1) r
                          in if authd r1
                             then (genReturnValue p now r1 ''success'' False, Some r1)
                             else (case genCaptchaAndReturn p po r1 ''more'' of
                                     (out, r2) \<Rightarrow> (out, Some r2)))
                    else (let r1 = set_wrong p now (wrong r + 1) r;
                              r2 = (if resetOnWrong p then set_correct p now 0 r1 else r1)
                          in if isLimited p r2
                             then (genReturnValue p now r2 ''limit'' False, Some r2)
                             else (case genCaptchaAndReturn p po r2 ''wrong'' of
                                     (out, r3) \<Rightarrow> (out, Some r3))))
         | None \<Rightarrow> handleNew p now po rec))"

text \<open>
  \<open>_delOld\<close>: when the sweep is due, every expired record is deleted. The order in which
  the iterator visits the entries does not matter: each entry is tested on its own.
\<close>

definition delOld :: "authPreferences \<Rightarrow> int \<Rightarrow> CaptchaAuthr \<Rightarrow> CaptchaAuthr" where
  "delOld p now s =
     (if now - lastOldCheck s > authTimeout p
      then s\<lparr>lastOldCheck := now,
             map_store := (\<lambda>k. case map_store s k of
                                  None \<Rightarrow> None
                                | Some r \<Rightarrow> if expired p now r then None else Some r)\<rparr>
      else s)"

text \<open>
  The body of the \<open>try\<close> block of \<open>tryAuth\<close>, on the record the map holds for the id: an
  expired record is deleted and the call goes on without one; an authenticated record
  returns at once; otherwise the answer selects the handler.
\<close>

definition tryBody ::
  "authPreferences \<Rightarrow> int \<Rightarrow> pop \<Rightarrow> string \<Rightarrow> AuthRecord option
     \<Rightarrow> (error + result) \<times> AuthRecord option" where
  "tryBody p now po ans rec0 =
     (let rec = (case rec0 of
                   None \<Rightarrow> None
                 | Some r \<Rightarrow> if expired p now r then None else Some r);
          handlers = (if ans = ''regen'' then handleRegen p now po rec
                      else if ans = [] then handleNew p now po rec
                      else handleAnswer p now po rec ans)
      in case rec of
           Some r \<Rightarrow>
             if authd r then (genReturnValue p now r ''success'' False, Some r) else handlers
         | None \<Rightarrow> handlers)"

definition errorResult :: result where
  "errorResult = \<lparr>state = ''error'', info = None, challenge = None\<rparr>"

text \<open>
  \<open>tryAuth(id, ans)\<close>: the sweep, then the \<open>try\<close> block, whose exception the \<open>catch\<close>
  turns into the error result. The store keeps what the block did before it threw.
\<close>

definition tryAuth ::
  "authPreferences \<Rightarrow> int \<Rightarrow> pop \<Rightarrow> string \<Rightarrow> string \<Rightarrow> CaptchaAuthr
     \<Rightarrow> result \<times> CaptchaAuthr" where
  "tryAuth p now po ident ans s =
     (let s1 = delOld p now s
      in case tryBody p now po ans (map_store s1 ident) of
           (out, rec1) \<Rightarrow>
             ((case out of Inl e \<Rightarrow> errorResult | Inr res \<Rightarrow> res),
              s1\<lparr>map_store := (map_store s1)(ident := rec1)\<rparr>))"

definition deAuthAndGenNew ::
  "authPreferences \<Rightarrow> int \<Rightarrow> pop \<Rightarrow> string \<Rightarrow> CaptchaAuthr \<Rightarrow> (error + result) \<times> CaptchaAuthr" where
  "deAuthAndGenNew p now po ident s =
     (case genCaptcha po (newAuthRecord now) of
        Inl e \<Rightarrow> (Inl e, s)
      | Inr r1 \<Rightarrow>
          (genReturnValue p (lastDownloadTime r1) r1 ''new'' True,
           s\<lparr>map_store := (map_store s)(ident := Some r1)\<rparr>))"

text \<open>
  A sequence of \<open>tryAuth\<close> calls, one after the other as the design asks of calls for one
  id: each call is the clock, the outcome of the provider's pop should the call await one,
  the id and the answer. The results come in the order of the calls.
\<close>

fun tryAuths ::
  "authPreferences \<Rightarrow> (int \<times> pop \<times> string \<times> string) list \<Rightarrow> CaptchaAuthr
     \<Rightarrow> result list \<times> CaptchaAuthr" where
  "tryAuths p [] s = ([], s)"
| "tryAuths p ((now, po, ident, ans) # calls) s =
     (case tryAuth p now po ident ans s of
        (res, s1) \<Rightarrow> (case tryAuths p calls s1 of (rs, s2) \<Rightarrow> (res # rs, s2)))"

section \<open>CaptchaMgr\<close>

text \<open>
  The constructor's options; \<open>None\<close> is an option left out. The logger, the check
  interval and the generator options do not matter to the queue's state.
\<close>

record opts =
  opt_initialCapacity :: "int option"
  opt_capacityDynamic :: "bool option"
  opt_capacityCutbackInterval :: "int option"
  opt_capacityCutbackMinPercentage :: "rat option"
  opt_forks :: "bool option"

text \<open>
  The manager. \<open>capacity\<close> and \<open>pendingCaptchas\<close> are JavaScript numbers that the class
  only ever increments and decrements; they are integers here. \<open>awaitingQue\<close> holds the
  \<open>resolve\<close> functions of the promises handed to parked callers, each named by the
  number of its promise. The last four fields are not fields of the class: they record
  what the manager did to its environment, in order: the promises it resolved and with
  what, the messages it sent to the provider job, the number of direct \<open>create()\<close> calls
  it is awaiting, and what it passed to \<open>logger.warn\<close>.
\<close>

record CaptchaMgr =
  capacity :: int
  capacityDynamic :: bool
  capacityCutbackInterval :: int
  capacityCutbackMinPercentage :: rat
  forks :: bool
  pendingCaptchas :: int
  readyQue :: "Challenge list"
  awaitingQue :: "nat list"
  terminated :: bool
  settled :: "(nat \<times> Challenge) list"
  sent :: "string list"
  creating :: nat
  warned :: "error list"

text \<open>The constructor: \<open>x || d\<close> takes the default for a missing or zero number.\<close>

definition newCaptchaMgr :: "opts \<Rightarrow> CaptchaMgr" where
  "newCaptchaMgr os =
     \<lparr> capacity = (case opt_initialCapacity os of None \<Rightarrow> 3 | Some n \<Rightarrow> if n = 0 then 3 else n),
       capacityDynamic = (opt_capacityDynamic os \<noteq> Some False),
       capacityCutbackInterval =
         (case opt_capacityCutbackInterval os of
            None \<Rightarrow> 1000 * 60 * 60 | Some n \<Rightarrow> if n = 0 then 1000 * 60 * 60 else n),
       capacityCutbackMinPercentage =
         (case opt_capacityCutbackMinPercentage os of
            None \<Rightarrow> 9 / 10 | Some q \<Rightarrow> if q = 0 then 9 / 10 else q),
       forks = (opt_forks os = Some True),
       pendingCaptchas = 0, readyQue = [], awaitingQue = [], terminated = False,
       settled = [], sent = [], creating = 0, warned = [] \<rparr>"

text \<open>
  \<open>_onCreated\<close>: the oldest parked resolver is taken off the queue and called with the
  challenge; with nobody parked the challenge joins the ready queue.
\<close>

definition onCreated :: "Challenge \<Rightarrow> CaptchaMgr \<Rightarrow> CaptchaMgr" where
  "onCreated res m =
     (case awaitingQue m of
        k # ks \<Rightarrow> m\<lparr>awaitingQue := ks, settled := settled m @ [(k, res)]\<rparr>
      | [] \<Rightarrow> m\<lparr>readyQue := readyQue m @ [res]\<rparr>)"

text \<open>
  \<open>_createCaptcha\<close> up to its first suspension: the pending counter goes up and the
  request leaves, as the message \<open>provide\<close> to the provider job or as a direct call of the
  generator's \<open>create()\<close>.
\<close>

definition createCaptcha :: "CaptchaMgr \<Rightarrow> CaptchaMgr" where
  "createCaptcha m =
     (let m1 = m\<lparr>pendingCaptchas := pendingCaptchas m + 1\<rparr>
      in if forks m1 then m1\<lparr>sent := sent m1 @ [''provide'']\<rparr>
         else m1\<lparr>creating := creating m1 + 1\<rparr>)"

text \<open>
  The rest of \<open>_createCaptcha\<close> in direct mode, when the awaited \<open>create()\<close> settles:
  the \<open>try\<close> block goes on with the challenge, or the \<open>catch\<close> block runs with the
  rejection.
\<close>

definition createResolved :: "Challenge \<Rightarrow> CaptchaMgr \<Rightarrow> CaptchaMgr" where
  "createResolved res m =
     (let m1 = onCreated res (m\<lparr>creating := creating m - 1\<rparr>)
      in m1\<lparr>pendingCaptchas := pendingCaptchas m1 - 1\<rparr>)"

definition createRejected :: "error \<Rightarrow> CaptchaMgr \<Rightarrow> CaptchaMgr" where
  "createRejected e m = m\<lparr>creating := creating m - 1, warned := warned m @ [e]\<rparr>"

text \<open>
  What the provider job sends back: the object \<open>create()\<close> resolved, as it is, or the
  object \<open>{err}\<close>. \<open>ownKeys\<close> lists the property names of the object sent. An \<open>err\<close>
  property holds the rejection of \<open>create()\<close>, taken to be truthy.
\<close>

datatype jobMessage = ResultMessage Challenge | ErrMessage error

definition ownKeys :: "jobMessage \<Rightarrow> string list" where
  "ownKeys d =
     (case d of
        ResultMessage c \<Rightarrow> [''choices'', ''answer'', ''data'']
      | ErrMessage e \<Rightarrow> [''err''])"

text \<open>
  \<open>provider-job.js\<close>: the handler of a message from the parent, given how the
  generator's \<open>create()\<close> settles; the list holds what the job sends back.
\<close>

definition providerJob :: "error + Challenge \<Rightarrow> string \<Rightarrow> jobMessage list" where
  "providerJob created msg =
     (if msg = ''provide''
      then (case created of
              Inr res \<Rightarrow> [ResultMessage res]
            | Inl err \<Rightarrow> [ErrMessage err])
      else [])"

text \<open>The handler \<open>begin()\<close> installs for the provider job's messages.\<close>

definition onMessage :: "jobMessage \<Rightarrow> CaptchaMgr \<Rightarrow> CaptchaMgr" where
  "onMessage d m =
     (let m1 = (case d of
                  ErrMessage e \<Rightarrow> m\<lparr>warned := warned m @ [e]\<rparr>
                | ResultMessage res \<Rightarrow> onCreated res m)
      in m1\<lparr>pendingCaptchas := pendingCaptchas m1 - 1\<rparr>)"

text \<open>The \<open>while\<close> loop of \<open>_checkForCaptchas\<close>, and the method.\<close>

function checkForCaptchas_loop :: "CaptchaMgr \<Rightarrow> CaptchaMgr" where
  "checkForCaptchas_loop m =
     (if capacity m > pendingCaptchas m + int (length (readyQue m))
      then checkForCaptchas_loop (createCaptcha m)
      else m)"
  by pat_completeness auto
termination
  by (relation "measure (\<lambda>m. nat (capacity m - (pendingCaptchas m + int (length (readyQue m)))))")
    (auto simp: createCaptcha_def Let_def)

declare checkForCaptchas_loop.simps [simp del]

definition checkForCaptchas :: "CaptchaMgr \<Rightarrow> CaptchaMgr" where
  "checkForCaptchas m = (if \<not> terminated m then checkForCaptchas_loop m else m)"

text \<open>
  The callback of the cutback timer. The ratio is a division of JavaScript numbers,
  here of rationals.
\<close>

definition cutback :: "CaptchaMgr \<Rightarrow> CaptchaMgr" where
  "cutback m =
     (if capacity m > 2
         \<and> of_nat (length (readyQue m)) / of_int (capacity m) > capacityCutbackMinPercentage m
      then m\<lparr>capacity := capacity m - 1\<rparr>
      else m)"

text \<open>
  \<open>popCaptcha\<close>, called by the holder of promise \<open>k\<close>: \<open>Some c\<close> is a promise resolved at
  once with \<open>c\<close>, \<open>None\<close> a pending promise whose resolver is parked. A challenge is an
  object, hence truthy in the test of \<open>result\<close>.
\<close>

definition popCaptcha :: "nat \<Rightarrow> CaptchaMgr \<Rightarrow> Challenge option \<times> CaptchaMgr" where
  "popCaptcha k m =
     (let m1 = (if length (readyQue m) \<le> 2 \<and> capacityDynamic m
                then m\<lparr>capacity := capacity m + 1\<rparr> else m)
      in if awaitingQue m1 = [] \<and> length (readyQue m1) > 0
         then (Some (hd (readyQue m1)), m1\<lparr>readyQue := tl (readyQue m1)\<rparr>)
         else (None, m1\<lparr>awaitingQue := awaitingQue m1 @ [k]\<rparr>))"

definition terminate :: "CaptchaMgr \<Rightarrow> CaptchaMgr" where
  "terminate m = m\<lparr>terminated := True\<rparr>"

text \<open>
  What can happen to a manager after \<open>begin()\<close>: a caller pops, a timer fires, a direct
  \<open>create()\<close> settles, the provider job sends a message, the owner terminates. The
  cutback timer exists only when \<open>begin()\<close> installed it, and \<open>terminate()\<close> closes both
  timers.
\<close>

datatype event =
    Pop nat
  | Tick
  | CutbackTick
  | CreateResolved Challenge
  | CreateRejected error
  | JobMessage jobMessage
  | Terminate

definition step :: "event \<Rightarrow> CaptchaMgr \<Rightarrow> CaptchaMgr" where
  "step ev m =
     (case ev of
        Pop k \<Rightarrow> snd (popCaptcha k m)
      | Tick \<Rightarrow> checkForCaptchas m
      | CutbackTick \<Rightarrow>
          if capacityCutbackInterval m > 0 \<and> capacityDynamic m \<and> \<not> terminated m
          then cutback m else m
      | CreateResolved res \<Rightarrow> createResolved res m
      | CreateRejected e \<Rightarrow> createRejected e m
      | JobMessage d \<Rightarrow> onMessage d m
      | Terminate \<Rightarrow> terminate m)"

fun run :: "event list \<Rightarrow> CaptchaMgr \<Rightarrow> CaptchaMgr" where
  "run [] m = m"
| "run (ev # evs) m = run evs (step ev m)"

section \<open>Concrete values of the scenarios\<close>

text \<open>
  The options of a manager constructed with none, of one that forks the provider job, of
  one whose capacity is not dynamic, and three challenges.
\<close>

definition defaultOpts :: opts where
  "defaultOpts =
     \<lparr> opt_initialCapacity = None, opt_capacityDynamic = None,
       opt_capacityCutbackInterval = None, opt_capacityCutbackMinPercentage = None,
       opt_forks = None \<rparr>"

definition forkOpts :: opts where
  "forkOpts = defaultOpts\<lparr>opt_forks := Some True\<rparr>"

definition staticOpts :: opts where
  "staticOpts = defaultOpts\<lparr>opt_capacityDynamic := Some False\<rparr>"

definition ch1 :: Challenge where
  "ch1 = \<lparr> choices = [''A'', ''D'', ''E''], answer = ''AD'', data = ''png1'' \<rparr>"

definition ch2 :: Challenge where
  "ch2 = \<lparr> choices = [''I'', ''H'', ''K''], answer = ''HK'', data = ''png2'' \<rparr>"

definition ch3 :: Challenge where
  "ch3 = \<lparr> choices = [''M'', ''N'', ''O''], answer = ''MO'', data = ''png3'' \<rparr>"

text \<open>A store with no record, as the \<open>CaptchaAuthr\<close> constructor leaves it at time 0.\<close>

definition emptyStore :: CaptchaAuthr where
  "emptyStore = \<lparr> map_store = (\<lambda>k. None), lastOldCheck = 0 \<rparr>"

text \<open>
  The store after the first \<open>tryAuth\<close> of subject \<open>alice\<close> with no answer, at time 1000,
  under the default preferences: it holds a fresh record with the challenge \<open>ch1\<close>.
\<close>

definition aliceStore :: CaptchaAuthr where
  "aliceStore = snd (tryAuth defaultPreferences 1000 (Resolved ch1 1000) ''alice'' [] emptyStore)"

text \<open>
  Four wrong answers of \<open>alice\<close>, two seconds apart, each but the last followed by a fresh
  challenge; and the store after them.
\<close>

definition fourWrong :: "(int \<times> pop \<times> string \<times> string) list" where
  "fourWrong =
     [(2000, Resolved ch2 2000, ''alice'', ''xx''), (4000, Resolved ch3 4000, ''alice'', ''xx''),
      (6000, Resolved ch1 6000, ''alice'', ''xx''), (8000, Resolved ch2 8000, ''alice'', ''xx'')]"

definition limitedStore :: CaptchaAuthr where
  "limitedStore = snd (tryAuths defaultPreferences fourWrong aliceStore)"

text \<open>
  The store after \<open>alice\<close> answered her first challenge correctly, two seconds after it
  was issued.
\<close>

definition authdStore :: CaptchaAuthr where
  "authdStore = snd (tryAuth defaultPreferences 3000 (Resolved ch2 3000) ''alice'' ''da'' aliceStore)"

text \<open>
  The store after three wrong answers of \<open>alice\<close> and then the right answer to the
  challenge issued at 6000, given a tenth of a second after it.
\<close>

definition hastyStore :: CaptchaAuthr where
  "hastyStore = snd (tryAuths defaultPreferences
     [(2000, Resolved ch2 2000, ''alice'', ''xx''), (4000, Resolved ch3 4000, ''alice'', ''xx''),
      (6000, Resolved ch1 6000, ''alice'', ''xx''), (6100, Resolved ch2 6100, ''alice'', ''da'')]
     aliceStore)"

section \<open>Properties of the manager\<close>

lemmas mgr_eval = step_def newCaptchaMgr_def defaultOpts_def forkOpts_def staticOpts_def
  checkForCaptchas_def
  checkForCaptchas_loop.simps createCaptcha_def Let_def createResolved_def createRejected_def
  onCreated_def onMessage_def cutback_def popCaptcha_def terminate_def

lemma loop_capacity: "capacity (checkForCaptchas_loop m) = capacity m"
proof (induction m rule: checkForCaptchas_loop.induct)
  case (1 m)
  show ?case
  proof (cases "capacity m > pendingCaptchas m + int (length (readyQue m))")
    case True
    then have "checkForCaptchas_loop m = checkForCaptchas_loop (createCaptcha m)"
      by (subst checkForCaptchas_loop.simps) simp
    with 1 True show ?thesis by (simp add: createCaptcha_def Let_def)
  next
    case False
    then show ?thesis by (subst checkForCaptchas_loop.simps) simp
  qed
qed

lemma step_capacity_floor: "2 \<le> capacity m \<Longrightarrow> 2 \<le> capacity (step ev m)"
  by (cases ev)
    (auto simp: step_def popCaptcha_def Let_def checkForCaptchas_def loop_capacity cutback_def
      createResolved_def createRejected_def onMessage_def onCreated_def terminate_def
      split: list.splits jobMessage.splits)

lemma run_capacity_floor: "2 \<le> capacity m \<Longrightarrow> 2 \<le> capacity (run evs m)"
  by (induction evs arbitrary: m) (simp_all add: step_capacity_floor)

text \<open>
  C5. A cutback either leaves the capacity as it is or takes exactly one off, and it takes
  one off only when the capacity is above 2 and the ready queue's length over the capacity
  is above the cutback percentage. So a manager that starts with a capacity of at least 2
  keeps a capacity of at least 2 through every sequence of pops, ticks, cutbacks,
  completions, job messages and terminations.
\<close>

theorem C5_cutback_floor:
  "(capacity (cutback m) = capacity m - 1 \<or> capacity (cutback m) = capacity m)
   \<and> (capacity (cutback m) \<noteq> capacity m \<longrightarrow>
        capacity m > 2
        \<and> of_nat (length (readyQue m)) / of_int (capacity m) > capacityCutbackMinPercentage m)
   \<and> (2 \<le> capacity m \<longrightarrow> 2 \<le> capacity (run evs m))"
  by (simp add: cutback_def run_capacity_floor)

text \<open>
  The default manager after a tick and three completions has three ready challenges for
  a capacity of 3: the cutback fires once and takes the capacity to 2, where it stays.
\<close>

theorem C5_cutback_floor_witness:
  "capacity (run [Tick, CreateResolved ch1, CreateResolved ch2, CreateResolved ch3]
       (newCaptchaMgr defaultOpts)) = 3
   \<and> capacity (cutback (run [Tick, CreateResolved ch1, CreateResolved ch2, CreateResolved ch3]
       (newCaptchaMgr defaultOpts))) = 2
   \<and> 2 \<le> capacity (run [CutbackTick, CutbackTick, Tick, CutbackTick]
       (run [Tick, CreateResolved ch1, CreateResolved ch2, CreateResolved ch3]
         (newCaptchaMgr defaultOpts)))"
proof -
  let ?m = "run [Tick, CreateResolved ch1, CreateResolved ch2, CreateResolved ch3]
       (newCaptchaMgr defaultOpts)"
  have cap: "capacity ?m = 3" by (simp add: mgr_eval)
  have cut: "capacity (cutback ?m) = 2" by (simp add: mgr_eval)
  from cap have "2 \<le> capacity ?m" by simp
  with C5_cutback_floor [of ?m "[CutbackTick, CutbackTick, Tick, CutbackTick]"]
  have "2 \<le> capacity (run [CutbackTick, CutbackTick, Tick, CutbackTick] ?m)" by blast
  with cap cut show ?thesis by blast
qed

lemma settle_fifo_direct:
  "length cs \<le> length (awaitingQue m) \<Longrightarrow>
     settled (run (map CreateResolved cs) m) = settled m @ zip (awaitingQue m) cs
     \<and> awaitingQue (run (map CreateResolved cs) m) = drop (length cs) (awaitingQue m)
     \<and> readyQue (run (map CreateResolved cs) m) = readyQue m"
proof (induction cs arbitrary: m)
  case Nil
  then show ?case by simp
next
  case (Cons c cs)
  then obtain k ks where ks: "awaitingQue m = k # ks" by (cases "awaitingQue m") auto
  let ?m1 = "step (CreateResolved c) m"
  have m1: "awaitingQue ?m1 = ks" "settled ?m1 = settled m @ [(k, c)]" "readyQue ?m1 = readyQue m"
    using ks by (simp_all add: step_def createResolved_def onCreated_def Let_def)
  from Cons.prems ks have "length cs \<le> length (awaitingQue ?m1)" by (simp add: m1)
  from Cons.IH [OF this] show ?case by (simp add: m1 ks)
qed

lemma settle_fifo_forks:
  "length cs \<le> length (awaitingQue m) \<Longrightarrow>
     settled (run (map (\<lambda>c. JobMessage (ResultMessage c)) cs) m) = settled m @ zip (awaitingQue m) cs
     \<and> awaitingQue (run (map (\<lambda>c. JobMessage (ResultMessage c)) cs) m) = drop (length cs) (awaitingQue m)
     \<and> readyQue (run (map (\<lambda>c. JobMessage (ResultMessage c)) cs) m) = readyQue m"
proof (induction cs arbitrary: m)
  case Nil
  then show ?case by simp
next
  case (Cons c cs)
  then obtain k ks where ks: "awaitingQue m = k # ks" by (cases "awaitingQue m") auto
  let ?m1 = "step (JobMessage (ResultMessage c)) m"
  have m1: "awaitingQue ?m1 = ks" "settled ?m1 = settled m @ [(k, c)]" "readyQue ?m1 = readyQue m"
    using ks by (simp_all add: step_def onMessage_def onCreated_def Let_def)
  from Cons.prems ks have "length cs \<le> length (awaitingQue ?m1)" by (simp add: m1)
  from Cons.IH [OF this] show ?case by (simp add: m1 ks)
qed

text \<open>
  C3. \<open>popCaptcha\<close> resolves at once exactly when the ready queue is not empty and nobody
  is parked; it then hands out the oldest ready challenge. Otherwise the caller's resolver
  goes to the end of the parked queue and nothing else changes. Completed productions, in
  direct mode or as messages of the provider job, settle the parked callers oldest first:
  the first completion goes to the first parked caller, the second to the second, and so
  on.
\<close>

theorem C3_pop_and_fifo:
  "(fst (popCaptcha k m) \<noteq> None) = (readyQue m \<noteq> [] \<and> awaitingQue m = [])
   \<and> (readyQue m \<noteq> [] \<and> awaitingQue m = [] \<longrightarrow>
        fst (popCaptcha k m) = Some (hd (readyQue m))
        \<and> readyQue (snd (popCaptcha k m)) = tl (readyQue m)
        \<and> awaitingQue (snd (popCaptcha k m)) = []
        \<and> settled (snd (popCaptcha k m)) = settled m)
   \<and> (\<not> (readyQue m \<noteq> [] \<and> awaitingQue m = []) \<longrightarrow>
        awaitingQue (snd (popCaptcha k m)) = awaitingQue m @ [k]
        \<and> readyQue (snd (popCaptcha k m)) = readyQue m
        \<and> settled (snd (popCaptcha k m)) = settled m)
   \<and> (length cs \<le> length (awaitingQue m) \<longrightarrow>
        settled (run (map CreateResolved cs) m) = settled m @ zip (awaitingQue m) cs
        \<and> awaitingQue (run (map CreateResolved cs) m) = drop (length cs) (awaitingQue m)
        \<and> settled (run (map (\<lambda>c. JobMessage (ResultMessage c)) cs) m)
            = settled m @ zip (awaitingQue m) cs
        \<and> awaitingQue (run (map (\<lambda>c. JobMessage (ResultMessage c)) cs) m)
            = drop (length cs) (awaitingQue m))"
proof -
  have pop: "(fst (popCaptcha k m) \<noteq> None) = (readyQue m \<noteq> [] \<and> awaitingQue m = [])"
    by (auto simp: popCaptcha_def Let_def)
  have now: "readyQue m \<noteq> [] \<and> awaitingQue m = [] \<longrightarrow>
        fst (popCaptcha k m) = Some (hd (readyQue m))
        \<and> readyQue (snd (popCaptcha k m)) = tl (readyQue m)
        \<and> awaitingQue (snd (popCaptcha k m)) = []
        \<and> settled (snd (popCaptcha k m)) = settled m"
    by (auto simp: popCaptcha_def Let_def)
  have park: "\<not> (readyQue m \<noteq> [] \<and> awaitingQue m = []) \<longrightarrow>
        awaitingQue (snd (popCaptcha k m)) = awaitingQue m @ [k]
        \<and> readyQue (snd (popCaptcha k m)) = readyQue m
        \<and> settled (snd (popCaptcha k m)) = settled m"
    by (auto simp: popCaptcha_def Let_def)
  from pop now park settle_fifo_direct [of cs m] settle_fifo_forks [of cs m]
  show ?thesis by blast
qed

text \<open>
  The default manager with its three slots pending after a tick: a pop parks, and the
  first completion, not a later one, settles it; the other two go to the ready queue.
\<close>

theorem C3_pop_and_fifo_witness:
  "fst (popCaptcha 1 (run [Tick, CreateResolved ch1] (newCaptchaMgr defaultOpts))) = Some ch1
   \<and> pendingCaptchas (run [Tick] (newCaptchaMgr defaultOpts)) = 3
   \<and> fst (popCaptcha 4 (run [Tick] (newCaptchaMgr defaultOpts))) = None
   \<and> awaitingQue (run [Tick, Pop 4] (newCaptchaMgr defaultOpts)) = [4]
   \<and> settled (run (map CreateResolved [ch1]) (run [Tick, Pop 4] (newCaptchaMgr defaultOpts)))
       = [(4, ch1)]
   \<and> settled (run [Tick, Pop 4, CreateResolved ch1, CreateResolved ch2, CreateResolved ch3]
         (newCaptchaMgr defaultOpts)) = [(4, ch1)]
   \<and> readyQue (run [Tick, Pop 4, CreateResolved ch1, CreateResolved ch2, CreateResolved ch3]
         (newCaptchaMgr defaultOpts)) = [ch2, ch3]"
proof -
  let ?m0 = "run [Tick] (newCaptchaMgr defaultOpts)"
  let ?m1 = "run [Tick, CreateResolved ch1] (newCaptchaMgr defaultOpts)"
  let ?m2 = "run [Tick, Pop 4] (newCaptchaMgr defaultOpts)"
  have r1: "readyQue ?m1 = [ch1]" "awaitingQue ?m1 = []" by (simp_all add: mgr_eval)
  have r0: "readyQue ?m0 = []" "awaitingQue ?m0 = []" "pendingCaptchas ?m0 = 3"
    by (simp_all add: mgr_eval)
  have m2: "?m2 = snd (popCaptcha 4 ?m0)" by (simp add: step_def)
  have s2: "settled ?m2 = []" by (simp add: mgr_eval)
  from r1 C3_pop_and_fifo [of 1 ?m1 "[]"]
  have a: "fst (popCaptcha 1 ?m1) = Some ch1" by simp
  from r0 C3_pop_and_fifo [of 4 ?m0 "[]"]
  have b: "fst (popCaptcha 4 ?m0) = None" "awaitingQue ?m2 = [4]" by (simp_all add: step_def)
  from b C3_pop_and_fifo [of 4 ?m2 "[ch1]"] s2
  have c: "settled (run (map CreateResolved [ch1]) ?m2) = [(4, ch1)]" by simp
  have d: "settled (run [Tick, Pop 4, CreateResolved ch1, CreateResolved ch2, CreateResolved ch3]
         (newCaptchaMgr defaultOpts)) = [(4, ch1)]"
     "readyQue (run [Tick, Pop 4, CreateResolved ch1, CreateResolved ch2, CreateResolved ch3]
         (newCaptchaMgr defaultOpts)) = [ch2, ch3]"
    by (simp_all add: mgr_eval)
  from a b c d r0 show ?thesis by blast
qed

text \<open>
  C4, as amended: with dynamic capacity, a call of \<open>popCaptcha\<close> adds exactly 1 to the
  capacity when it finds at most 2 challenges in the ready queue, before it takes one,
  and adds nothing otherwise. So a call that hands out a challenge adds 1 exactly when at
  most 1 is left, and a call that parks exactly when the queue holds at most 2. Without
  dynamic capacity no call changes it.
\<close>

theorem C4_capacity_grows_on_short_ready:
  "capacity (snd (popCaptcha k m)) =
     (if length (readyQue m) \<le> 2 \<and> capacityDynamic m then capacity m + 1 else capacity m)
   \<and> (fst (popCaptcha k m) \<noteq> None \<and> capacityDynamic m \<longrightarrow>
        (capacity (snd (popCaptcha k m)) = capacity m + 1)
          = (length (readyQue (snd (popCaptcha k m))) \<le> 1))
   \<and> (fst (popCaptcha k m) = None \<and> capacityDynamic m \<longrightarrow>
        (capacity (snd (popCaptcha k m)) = capacity m + 1)
          = (length (readyQue (snd (popCaptcha k m))) \<le> 2))
   \<and> (\<not> capacityDynamic m \<longrightarrow> capacity (snd (popCaptcha k m)) = capacity m)"
  by (cases "readyQue m") (auto simp: popCaptcha_def Let_def)

theorem C4_capacity_grows_on_short_ready_witness:
  "fst (popCaptcha 7 (run [Tick, CreateResolved ch1, CreateResolved ch2] (newCaptchaMgr defaultOpts)))
     = Some ch1
   \<and> capacityDynamic (run [Tick, CreateResolved ch1, CreateResolved ch2] (newCaptchaMgr defaultOpts))
   \<and> length (readyQue (snd (popCaptcha 7
        (run [Tick, CreateResolved ch1, CreateResolved ch2] (newCaptchaMgr defaultOpts))))) = 1
   \<and> capacity (snd (popCaptcha 7
        (run [Tick, CreateResolved ch1, CreateResolved ch2] (newCaptchaMgr defaultOpts))))
      = capacity (run [Tick, CreateResolved ch1, CreateResolved ch2] (newCaptchaMgr defaultOpts)) + 1
   \<and> fst (popCaptcha 7 (newCaptchaMgr defaultOpts)) = None
   \<and> capacityDynamic (newCaptchaMgr defaultOpts)
   \<and> capacity (snd (popCaptcha 7 (newCaptchaMgr defaultOpts))) = 4
   \<and> \<not> capacityDynamic (newCaptchaMgr staticOpts)
   \<and> capacity (snd (popCaptcha 7 (newCaptchaMgr staticOpts)))
      = 3"
proof -
  let ?m = "run [Tick, CreateResolved ch1, CreateResolved ch2] (newCaptchaMgr defaultOpts)"
  let ?n = "newCaptchaMgr staticOpts"
  have a: "fst (popCaptcha 7 ?m) = Some ch1" "capacityDynamic ?m"
    "length (readyQue (snd (popCaptcha 7 ?m))) = 1"
    by (simp_all add: mgr_eval)
  have b: "fst (popCaptcha 7 (newCaptchaMgr defaultOpts)) = None"
    "capacityDynamic (newCaptchaMgr defaultOpts)"
    "length (readyQue (snd (popCaptcha 7 (newCaptchaMgr defaultOpts)))) = 0"
    "capacity (newCaptchaMgr defaultOpts) = 3"
    by (simp_all add: mgr_eval)
  have c: "\<not> capacityDynamic ?n" "capacity ?n = 3"
    by (simp_all add: mgr_eval)
  from a C4_capacity_grows_on_short_ready [of 7 ?m]
  have 1: "capacity (snd (popCaptcha 7 ?m)) = capacity ?m + 1" by simp
  from b C4_capacity_grows_on_short_ready [of 7 "newCaptchaMgr defaultOpts"]
  have 2: "capacity (snd (popCaptcha 7 (newCaptchaMgr defaultOpts))) = 4" by simp
  from c C4_capacity_grows_on_short_ready [of 7 ?n]
  have 3: "capacity (snd (popCaptcha 7 ?n)) = 3" by simp
  from a b c 1 2 3 show ?thesis by blast
qed

text \<open>
  C4 as stated fails: the default manager with three ready challenges hands one out,
  which leaves 2 in the queue, and the capacity stays at 3.
\<close>

theorem C4_counterexample:
  "capacityDynamic (run [Tick, CreateResolved ch1, CreateResolved ch2, CreateResolved ch3]
       (newCaptchaMgr defaultOpts))
   \<and> fst (popCaptcha 7 (run [Tick, CreateResolved ch1, CreateResolved ch2, CreateResolved ch3]
       (newCaptchaMgr defaultOpts))) = Some ch1
   \<and> length (readyQue (snd (popCaptcha 7
        (run [Tick, CreateResolved ch1, CreateResolved ch2, CreateResolved ch3]
          (newCaptchaMgr defaultOpts))))) = 2
   \<and> capacity (run [Tick, CreateResolved ch1, CreateResolved ch2, CreateResolved ch3]
          (newCaptchaMgr defaultOpts)) = 3
   \<and> capacity (snd (popCaptcha 7
        (run [Tick, CreateResolved ch1, CreateResolved ch2, CreateResolved ch3]
          (newCaptchaMgr defaultOpts)))) = 3"
  by (simp add: mgr_eval)

lemma loop_sent: "set (sent (checkForCaptchas_loop m)) \<subseteq> set (sent m) \<union> {''provide''}"
proof (induction m rule: checkForCaptchas_loop.induct)
  case (1 m)
  show ?case
  proof (cases "capacity m > pendingCaptchas m + int (length (readyQue m))")
    case True
    then have eq: "checkForCaptchas_loop m = checkForCaptchas_loop (createCaptcha m)"
      by (subst checkForCaptchas_loop.simps) simp
    have "set (sent (createCaptcha m)) \<subseteq> set (sent m) \<union> {''provide''}"
      by (auto simp: createCaptcha_def Let_def)
    with 1 [OF True] show ?thesis unfolding eq by blast
  next
    case False
    then show ?thesis by (subst checkForCaptchas_loop.simps) auto
  qed
qed

lemma step_sent: "set (sent (step ev m)) \<subseteq> set (sent m) \<union> {''provide''}"
proof (cases ev)
  case Tick
  then show ?thesis using loop_sent [of m] by (auto simp: step_def checkForCaptchas_def)
qed (auto simp: step_def popCaptcha_def Let_def cutback_def
      createResolved_def createRejected_def onMessage_def onCreated_def terminate_def
      split: list.splits jobMessage.splits)

lemma run_sent: "set (sent (run evs m)) \<subseteq> set (sent m) \<union> {''provide''}"
proof (induction evs arbitrary: m)
  case Nil
  then show ?case by auto
next
  case (Cons ev evs)
  from Cons.IH [of "step ev m"] step_sent [of ev m] show ?case by auto
qed

text \<open>
  C9, as amended: with forks enabled, every production request of the manager to the
  provider job is the message \<open>provide\<close>, with no payload, and the manager never sends
  anything else. The job answers each \<open>provide\<close> with one message: the challenge object
  itself (its keys are \<open>choices\<close>, \<open>answer\<close>, \<open>data\<close>) when \<open>create()\<close> resolves, the
  object \<open>{err}\<close> when it rejects; it answers no other message. The manager's handler
  takes one off the pending counter for either reply; it hands a challenge to the oldest
  parked caller, or to the ready queue when nobody is parked, and logs an error.
\<close>

theorem C9_provide_protocol:
  "(forks m \<longrightarrow>
      sent (createCaptcha m) = sent m @ [''provide'']
      \<and> pendingCaptchas (createCaptcha m) = pendingCaptchas m + 1)
   \<and> set (sent (run evs m)) \<subseteq> set (sent m) \<union> {''provide''}
   \<and> providerJob (Inr res) ''provide'' = [ResultMessage res]
   \<and> ownKeys (ResultMessage res) = [''choices'', ''answer'', ''data'']
   \<and> providerJob (Inl e) ''provide'' = [ErrMessage e]
   \<and> ownKeys (ErrMessage e) = [''err'']
   \<and> (msg \<noteq> ''provide'' \<longrightarrow> providerJob created msg = [])
   \<and> pendingCaptchas (onMessage d m) = pendingCaptchas m - 1
   \<and> (awaitingQue m = k # ks \<longrightarrow>
        settled (onMessage (ResultMessage res) m) = settled m @ [(k, res)]
        \<and> awaitingQue (onMessage (ResultMessage res) m) = ks
        \<and> readyQue (onMessage (ResultMessage res) m) = readyQue m)
   \<and> (awaitingQue m = [] \<longrightarrow>
        readyQue (onMessage (ResultMessage res) m) = readyQue m @ [res]
        \<and> settled (onMessage (ResultMessage res) m) = settled m)
   \<and> warned (onMessage (ErrMessage e) m) = warned m @ [e]
   \<and> readyQue (onMessage (ErrMessage e) m) = readyQue m
   \<and> awaitingQue (onMessage (ErrMessage e) m) = awaitingQue m
   \<and> settled (onMessage (ErrMessage e) m) = settled m"
proof -
  have a: "forks m \<longrightarrow>
      sent (createCaptcha m) = sent m @ [''provide'']
      \<and> pendingCaptchas (createCaptcha m) = pendingCaptchas m + 1"
    by (simp add: createCaptcha_def Let_def)
  have b: "providerJob (Inr res) ''provide'' = [ResultMessage res]"
    "ownKeys (ResultMessage res) = [''choices'', ''answer'', ''data'']"
    "providerJob (Inl e) ''provide'' = [ErrMessage e]"
    "ownKeys (ErrMessage e) = [''err'']"
    "msg \<noteq> ''provide'' \<longrightarrow> providerJob created msg = []"
    by (simp_all add: providerJob_def ownKeys_def)
  have c: "pendingCaptchas (onMessage d m) = pendingCaptchas m - 1"
    by (cases d) (simp_all add: onMessage_def onCreated_def Let_def split: list.splits)
  have d: "awaitingQue m = k # ks \<longrightarrow>
        settled (onMessage (ResultMessage res) m) = settled m @ [(k, res)]
        \<and> awaitingQue (onMessage (ResultMessage res) m) = ks
        \<and> readyQue (onMessage (ResultMessage res) m) = readyQue m"
    "awaitingQue m = [] \<longrightarrow>
        readyQue (onMessage (ResultMessage res) m) = readyQue m @ [res]
        \<and> settled (onMessage (ResultMessage res) m) = settled m"
    by (simp_all add: onMessage_def onCreated_def Let_def)
  have e: "warned (onMessage (ErrMessage e) m) = warned m @ [e]"
    "readyQue (onMessage (ErrMessage e) m) = readyQue m"
    "awaitingQue (onMessage (ErrMessage e) m) = awaitingQue m"
    "settled (onMessage (ErrMessage e) m) = settled m"
    by (simp_all add: onMessage_def Let_def)
  from a b c d e run_sent [of evs m] show ?thesis by blast
qed

text \<open>
  A forking manager: its tick sends three \<open>provide\<close> messages; a parked caller gets the
  first challenge that comes back; an error reply frees one of the three slots.
\<close>

theorem C9_provide_protocol_witness:
  "forks (newCaptchaMgr forkOpts)
   \<and> sent (createCaptcha (newCaptchaMgr forkOpts)) = [''provide'']
   \<and> sent (run [Tick] (newCaptchaMgr forkOpts)) = [''provide'', ''provide'', ''provide'']
   \<and> ''ask'' \<noteq> ''provide'' \<and> providerJob (Inr ch1) ''ask'' = []
   \<and> awaitingQue (run [Tick, Pop 4] (newCaptchaMgr forkOpts)) = [4]
   \<and> settled (onMessage (ResultMessage ch1) (run [Tick, Pop 4] (newCaptchaMgr forkOpts)))
       = [(4, ch1)]
   \<and> awaitingQue (run [Tick] (newCaptchaMgr forkOpts)) = []
   \<and> readyQue (onMessage (ResultMessage ch1) (run [Tick] (newCaptchaMgr forkOpts))) = [ch1]
   \<and> pendingCaptchas (onMessage (ErrMessage GeneratorError) (run [Tick] (newCaptchaMgr forkOpts)))
       = 2"
proof -
  let ?m = "newCaptchaMgr forkOpts"
  let ?m1 = "run [Tick] ?m"
  let ?m2 = "run [Tick, Pop 4] ?m"
  have f: "forks ?m" "sent ?m = []" by (simp_all add: mgr_eval)
  have m1: "awaitingQue ?m1 = []" "readyQue ?m1 = []" "pendingCaptchas ?m1 = 3"
    "sent ?m1 = [''provide'', ''provide'', ''provide'']"
    by (simp_all add: mgr_eval)
  have m2: "awaitingQue ?m2 = [4]" "settled ?m2 = []" by (simp_all add: mgr_eval)
  have ne: "''ask'' \<noteq> ''provide''" by simp
  from f C9_provide_protocol [of ?m "[]"]
  have 1: "sent (createCaptcha ?m) = [''provide'']" by simp
  from ne C9_provide_protocol [of ?m "[]" ch1 GeneratorError "''ask''" "Inr ch1"]
  have 2: "providerJob (Inr ch1) ''ask'' = []" by blast
  from m2 C9_provide_protocol [of ?m2 "[]" ch1 GeneratorError "''ask''" "Inr ch1" "ResultMessage ch1" 4 "[]"]
  have 3: "settled (onMessage (ResultMessage ch1) ?m2) = [(4, ch1)]" by simp
  from m1 C9_provide_protocol [of ?m1 "[]" ch1 GeneratorError "''ask''" "Inr ch1" "ErrMessage GeneratorError"]
  have 4: "readyQue (onMessage (ResultMessage ch1) ?m1) = [ch1]"
    "pendingCaptchas (onMessage (ErrMessage GeneratorError) ?m1) = 2" by simp_all
  from f m1 m2 ne 1 2 3 4 show ?thesis by blast
qed

text \<open>
  C9 as stated fails: the manager sends \<open>provide\<close>, never \<open>produce\<close>; the job does not
  answer \<open>produce\<close> at all; and its replies have neither a \<open>challenge\<close> nor an \<open>error\<close>
  key.
\<close>

theorem C9_counterexample:
  "forks (newCaptchaMgr forkOpts)
   \<and> sent (run [Tick] (newCaptchaMgr forkOpts)) = [''provide'', ''provide'', ''provide'']
   \<and> ''produce'' \<notin> set (sent (run [Tick] (newCaptchaMgr forkOpts)))
   \<and> providerJob (Inr ch1) ''produce'' = []
   \<and> providerJob (Inl GeneratorError) ''produce'' = []
   \<and> providerJob (Inr ch1) ''provide'' = [ResultMessage ch1]
   \<and> ''challenge'' \<notin> set (ownKeys (ResultMessage ch1))
   \<and> providerJob (Inl GeneratorError) ''provide'' = [ErrMessage GeneratorError]
   \<and> ''error'' \<notin> set (ownKeys (ErrMessage GeneratorError))"
  by (simp add: mgr_eval providerJob_def ownKeys_def)

text \<open>
  C2 fails in direct mode. A manager with a fixed capacity of 3 issues three direct
  requests on its first tick. Each rejection is logged, but the pending counter stays at
  3: with nothing in flight and nothing ready, the next tick issues no request. In fork
  mode an error reply takes the counter down and the next tick issues the request again.
\<close>

theorem C2_direct_failure_keeps_slot:
  "\<not> forks (newCaptchaMgr staticOpts)
   \<and> pendingCaptchas (run [Tick] (newCaptchaMgr staticOpts)) = 3
   \<and> creating (run [Tick] (newCaptchaMgr staticOpts)) = 3
   \<and> pendingCaptchas (run [Tick, CreateRejected GeneratorError] (newCaptchaMgr staticOpts)) = 3
   \<and> warned (run [Tick, CreateRejected GeneratorError] (newCaptchaMgr staticOpts))
       = [GeneratorError]
   \<and> pendingCaptchas (run [Tick, CreateRejected GeneratorError, CreateRejected GeneratorError,
        CreateRejected GeneratorError] (newCaptchaMgr staticOpts)) = 3
   \<and> creating (run [Tick, CreateRejected GeneratorError, CreateRejected GeneratorError,
        CreateRejected GeneratorError] (newCaptchaMgr staticOpts)) = 0
   \<and> readyQue (run [Tick, CreateRejected GeneratorError, CreateRejected GeneratorError,
        CreateRejected GeneratorError] (newCaptchaMgr staticOpts)) = []
   \<and> creating (run [Tick, CreateRejected GeneratorError, CreateRejected GeneratorError,
        CreateRejected GeneratorError, Tick] (newCaptchaMgr staticOpts)) = 0
   \<and> pendingCaptchas (run [Tick, JobMessage (ErrMessage GeneratorError)]
        (newCaptchaMgr (staticOpts\<lparr>opt_forks := Some True\<rparr>))) = 2
   \<and> sent (run [Tick, JobMessage (ErrMessage GeneratorError), Tick]
        (newCaptchaMgr (staticOpts\<lparr>opt_forks := Some True\<rparr>)))
       = [''provide'', ''provide'', ''provide'', ''provide'']"
  by (simp add: mgr_eval)

section \<open>Properties of the authentication store\<close>

lemmas auth_eval = tryAuth_def tryBody_def delOld_def handleNew_def handleRegen_def
  handleAnswer_def genCaptchaAndReturn_def genCaptcha_def genReturnValue_def getChallenge_def
  getInfo_def checkAnswer_def set_wrong_def set_correct_def authenticate_def isLimited_def
  tryDroppingWrong_def tookTooLong_def wasTooFast_def expired_def newAuthRecord_def
  errorResult_def Let_def defaultPreferences_def emptyStore_def aliceStore_def ch1_def ch2_def ch3_def
  fourWrong_def limitedStore_def authdStore_def

lemma checker_accepts: "defaultChecker ''da'' ''AD''"
  by code_simp

lemma checker_rejects: "\<not> defaultChecker ''xx'' ''AD''" "\<not> defaultChecker ''xx'' ''HK''"
  "\<not> defaultChecker ''xx'' ''MO''"
  by code_simp+

lemma tryBody_delOld:
  "tryBody p now po ans (map_store (delOld p now s) k) = tryBody p now po ans (map_store s k)"
  by (cases "map_store s k") (simp_all add: delOld_def tryBody_def Let_def)

lemma tryAuth_result:
  "fst (tryAuth p now po ident ans s) =
     (case fst (tryBody p now po ans (map_store s ident)) of
        Inl e \<Rightarrow> errorResult | Inr res \<Rightarrow> res)"
  by (simp add: tryAuth_def Let_def tryBody_delOld split: prod.splits)

lemma tryAuth_record:
  "map_store (snd (tryAuth p now po ident ans s)) ident
     = snd (tryBody p now po ans (map_store s ident))"
  by (simp add: tryAuth_def Let_def tryBody_delOld split: prod.splits)

lemma tryAuth_other:
  "k \<noteq> ident \<Longrightarrow>
     map_store (snd (tryAuth p now po ident ans s)) k = map_store (delOld p now s) k"
  by (simp add: tryAuth_def Let_def split: prod.splits)

lemma delOld_keeps:
  "map_store s k = Some r \<Longrightarrow> \<not> expired p now r \<Longrightarrow> map_store (delOld p now s) k = Some r"
  by (simp add: delOld_def)

lemma tryBody_authd:
  "authd r \<Longrightarrow> \<not> expired p now r \<Longrightarrow>
     tryBody p now po ans (Some r) = (genReturnValue p now r ''success'' False, Some r)"
  by (simp add: tryBody_def Let_def)

lemma alice_record:
  "map_store aliceStore ''alice''
     = Some \<lparr> authd = False, wrong = 0, correct = 0, lastLimitTime = 0,
              lastDownloadTime = 1000, lastAuthTime = 0, captcha = Some ch1 \<rparr>"
  by (simp add: auth_eval)

lemma limited_record:
  "map_store limitedStore ''alice''
     = Some \<lparr> authd = False, wrong = 4, correct = 0, lastLimitTime = 8000,
              lastDownloadTime = 6000, lastAuthTime = 0, captcha = Some ch1 \<rparr>"
  using checker_rejects by (simp add: auth_eval)

lemma authd_record:
  "map_store authdStore ''alice''
     = Some \<lparr> authd = True, wrong = 0, correct = 1, lastLimitTime = 0,
              lastDownloadTime = 1000, lastAuthTime = 3000, captcha = Some ch1 \<rparr>"
  using checker_accepts by (simp add: auth_eval)

lemma tryDroppingWrong_cases:
  "tryDroppingWrong p now r = r
   \<or> (isLimited p r \<and> now - lastLimitTime r > dropWrongAfter p
      \<and> tryDroppingWrong p now r = r\<lparr>wrong := 0, lastDownloadTime := now\<rparr>)"
  by (simp add: tryDroppingWrong_def)

lemma genCaptchaAndReturn_counters:
  "wrong (snd (genCaptchaAndReturn p po r st)) = wrong r
   \<and> correct (snd (genCaptchaAndReturn p po r st)) = correct r
   \<and> authd (snd (genCaptchaAndReturn p po r st)) = authd r
   \<and> lastLimitTime (snd (genCaptchaAndReturn p po r st)) = lastLimitTime r
   \<and> lastAuthTime (snd (genCaptchaAndReturn p po r st)) = lastAuthTime r"
  by (cases po) (simp_all add: genCaptchaAndReturn_def genCaptcha_def)

lemma limited_tryBody:
  assumes "isLimited p r" "\<not> expired p now r"
  shows "\<exists>r1. snd (tryBody p now po ans (Some r)) = Some r1
     \<and> lastLimitTime r1 = lastLimitTime r
     \<and> (wrong r1 = wrong r
         \<or> (wrong r1 = 0 \<and> now - lastLimitTime r > dropWrongAfter p))"
  using assms
  by (cases po)
     (auto simp: tryBody_def handleRegen_def handleNew_def handleAnswer_def Let_def
       set_wrong_def tryDroppingWrong_def genCaptchaAndReturn_def genCaptcha_def
       split: prod.splits)

text \<open>
  C10. While a record is limited, an assignment through the setter of \<open>wrong\<close> changes
  nothing. On a record that is not limited the setter stores the value and sets
  \<open>lastLimitTime\<close> exactly when the value crosses \<open>maxWrong\<close>. On a limited record
  \<open>tryDroppingWrong\<close> either changes nothing or, once the cooldown has passed, sets
  \<open>wrong\<close> to 0. So a \<open>tryAuth\<close> call on a limited record, whatever the answer, leaves
  \<open>lastLimitTime\<close> as it was, and leaves \<open>wrong\<close> as it was or, after the cooldown, at 0.
\<close>

theorem C10_limited_record_frozen:
  assumes "isLimited p r" and "\<not> isLimited p r0"
    and "map_store s ident = Some r" and "\<not> expired p now r"
  shows "set_wrong p now v r = r
    \<and> wrong (set_wrong p now v r0) = v
    \<and> lastLimitTime (set_wrong p now v r0) = (if v > maxWrong p then now else lastLimitTime r0)
    \<and> (tryDroppingWrong p now r = r
        \<or> (now - lastLimitTime r > dropWrongAfter p
            \<and> tryDroppingWrong p now r = r\<lparr>wrong := 0, lastDownloadTime := now\<rparr>))
    \<and> (\<exists>r1. map_store (snd (tryAuth p now po ident ans s)) ident = Some r1
          \<and> lastLimitTime r1 = lastLimitTime r
          \<and> (wrong r1 = wrong r
              \<or> (wrong r1 = 0 \<and> now - lastLimitTime r > dropWrongAfter p)))"
proof -
  have a: "set_wrong p now v r = r" using assms(1) by (simp add: set_wrong_def)
  have b: "wrong (set_wrong p now v r0) = v"
    "lastLimitTime (set_wrong p now v r0) = (if v > maxWrong p then now else lastLimitTime r0)"
    using assms(2) by (simp_all add: set_wrong_def isLimited_def Let_def)
  have c: "tryDroppingWrong p now r = r
        \<or> (now - lastLimitTime r > dropWrongAfter p
            \<and> tryDroppingWrong p now r = r\<lparr>wrong := 0, lastDownloadTime := now\<rparr>)"
    using tryDroppingWrong_cases [of p now r] by blast
  have d: "\<exists>r1. map_store (snd (tryAuth p now po ident ans s)) ident = Some r1
          \<and> lastLimitTime r1 = lastLimitTime r
          \<and> (wrong r1 = wrong r
              \<or> (wrong r1 = 0 \<and> now - lastLimitTime r > dropWrongAfter p))"
    using limited_tryBody [OF assms(1,4), of po ans] by (simp add: tryAuth_record assms(3))
  from a b c d show ?thesis by blast
qed

text \<open>
  The record of \<open>alice\<close> after four wrong answers is limited since time 8000 with a count
  of 4. A fifth wrong answer at 9000 leaves both; a regeneration request at 20000, after
  the cooldown, takes the count to 0 and leaves the onset.
\<close>

theorem C10_limited_record_frozen_witness:
  "isLimited defaultPreferences
     \<lparr> authd = False, wrong = 4, correct = 0, lastLimitTime = 8000,
       lastDownloadTime = 6000, lastAuthTime = 0, captcha = Some ch1 \<rparr>
   \<and> \<not> isLimited defaultPreferences (newAuthRecord 1000)
   \<and> set_wrong defaultPreferences 9000 5
        \<lparr> authd = False, wrong = 4, correct = 0, lastLimitTime = 8000,
          lastDownloadTime = 6000, lastAuthTime = 0, captcha = Some ch1 \<rparr>
       = \<lparr> authd = False, wrong = 4, correct = 0, lastLimitTime = 8000,
           lastDownloadTime = 6000, lastAuthTime = 0, captcha = Some ch1 \<rparr>
   \<and> lastLimitTime (set_wrong defaultPreferences 9000 5 (newAuthRecord 1000)) = 9000
   \<and> lastLimitTime (set_wrong defaultPreferences 9000 3 (newAuthRecord 1000)) = 0
   \<and> map_option wrong
        (map_store (snd (tryAuth defaultPreferences 9000 (Resolved ch3 9000) ''alice'' ''xx''
           limitedStore)) ''alice'') = Some 4
   \<and> map_option lastLimitTime
        (map_store (snd (tryAuth defaultPreferences 9000 (Resolved ch3 9000) ''alice'' ''xx''
           limitedStore)) ''alice'') = Some 8000
   \<and> map_option wrong
        (map_store (snd (tryAuth defaultPreferences 20000 (Resolved ch3 20000) ''alice'' ''regen''
           limitedStore)) ''alice'') = Some 0
   \<and> map_option lastLimitTime
        (map_store (snd (tryAuth defaultPreferences 20000 (Resolved ch3 20000) ''alice'' ''regen''
           limitedStore)) ''alice'') = Some 8000"
proof -
  let ?r = "\<lparr> authd = False, wrong = 4, correct = 0, lastLimitTime = 8000,
       lastDownloadTime = 6000, lastAuthTime = 0, captcha = Some ch1 \<rparr>"
  let ?p = defaultPreferences
  have lim: "isLimited ?p ?r" by (simp add: isLimited_def defaultPreferences_def)
  have nlim: "\<not> isLimited ?p (newAuthRecord 1000)"
    by (simp add: isLimited_def defaultPreferences_def newAuthRecord_def)
  have nexp: "\<not> expired ?p 9000 ?r" "\<not> expired ?p 20000 ?r" by (simp_all add: expired_def)
  note a = C10_limited_record_frozen [OF lim nlim limited_record nexp(1),
      of 5 "Resolved ch3 9000" "''xx''"]
  note b = C10_limited_record_frozen [OF lim nlim limited_record nexp(1),
      of 3 "Resolved ch3 9000" "''xx''"]
  note c = C10_limited_record_frozen [OF lim nlim limited_record nexp(2),
      of 5 "Resolved ch3 20000" "''regen''"]
  have a1: "set_wrong ?p 9000 5 ?r = ?r"
    "lastLimitTime (set_wrong ?p 9000 5 (newAuthRecord 1000)) = 9000"
    using a by (simp_all add: defaultPreferences_def)
  have b1: "lastLimitTime (set_wrong ?p 9000 3 (newAuthRecord 1000)) = 0"
    using b by (simp add: defaultPreferences_def newAuthRecord_def)
  from a obtain r1 where r1:
    "map_store (snd (tryAuth ?p 9000 (Resolved ch3 9000) ''alice'' ''xx'' limitedStore)) ''alice''
       = Some r1"
    "lastLimitTime r1 = 8000"
    "wrong r1 = 4 \<or> (wrong r1 = 0 \<and> (9000::int) - 8000 > dropWrongAfter ?p)"
    by auto
  from r1(3) have "wrong r1 = 4" by (simp add: defaultPreferences_def)
  with r1 have a2:
    "map_option wrong (map_store (snd (tryAuth ?p 9000 (Resolved ch3 9000) ''alice'' ''xx''
        limitedStore)) ''alice'') = Some 4"
    "map_option lastLimitTime (map_store (snd (tryAuth ?p 9000 (Resolved ch3 9000) ''alice'' ''xx''
        limitedStore)) ''alice'') = Some 8000"
    by simp_all
  from c obtain r2 where r2:
    "map_store (snd (tryAuth ?p 20000 (Resolved ch3 20000) ''alice'' ''regen'' limitedStore))
       ''alice'' = Some r2"
    "lastLimitTime r2 = 8000"
    by auto
  have "map_option wrong (map_store (snd (tryAuth ?p 20000 (Resolved ch3 20000) ''alice''
        ''regen'' limitedStore)) ''alice'') = Some 0"
    by (simp add: tryAuth_record limited_record)
       (simp add: auth_eval)
  with r2 have c2:
    "map_option wrong (map_store (snd (tryAuth ?p 20000 (Resolved ch3 20000) ''alice''
        ''regen'' limitedStore)) ''alice'') = Some 0"
    "map_option lastLimitTime (map_store (snd (tryAuth ?p 20000 (Resolved ch3 20000) ''alice''
        ''regen'' limitedStore)) ''alice'') = Some 8000"
    by simp_all
  from lim nlim a1 b1 a2 c2 show ?thesis by blast
qed

lemma authd_kept:
  assumes "map_store s ident = Some r" "authd r" "\<not> expired p now r"
  shows "map_store (snd (tryAuth p now po k ans s)) ident = Some r"
proof (cases "k = ident")
  case True
  with assms show ?thesis by (simp add: tryAuth_record tryBody_authd)
next
  case False
  with assms show ?thesis by (simp add: tryAuth_other delOld_keeps)
qed

lemma authd_success:
  assumes "map_store s ident = Some r" "authd r" "\<not> expired p now r"
  shows "fst (tryAuth p now po ident ans s)
           = \<lparr>state = ''success'', info = Some (getInfo p now r), challenge = None\<rparr>"
  using assms by (simp add: tryAuth_result tryBody_authd genReturnValue_def)

lemma tryAuths_Cons:
  "tryAuths p ((now, po, k, ans) # calls) s =
     (fst (tryAuth p now po k ans s) # fst (tryAuths p calls (snd (tryAuth p now po k ans s))),
      snd (tryAuths p calls (snd (tryAuth p now po k ans s))))"
  by (simp split: prod.splits)

lemma tryAuths_length: "length (fst (tryAuths p calls s)) = length calls"
proof (induction calls arbitrary: s)
  case Nil
  then show ?case by simp
next
  case (Cons c calls)
  obtain now po k ans where c: "c = (now, po, k, ans)" by (cases c) auto
  show ?case unfolding c tryAuths_Cons by (simp add: Cons.IH)
qed

lemma authd_monotonic:
  assumes "map_store s ident = Some r" "authd r" "\<forall>c \<in> set calls. \<not> expired p (fst c) r"
  shows "map_store (snd (tryAuths p calls s)) ident = Some r
     \<and> (\<forall>i < length calls. fst (snd (snd (calls ! i))) = ident \<longrightarrow>
           state (fst (tryAuths p calls s) ! i) = ''success'')"
  using assms
proof (induction calls arbitrary: s)
  case Nil
  then show ?case by simp
next
  case (Cons c calls)
  obtain now po k ans where c: "c = (now, po, k, ans)" by (cases c) auto
  let ?s1 = "snd (tryAuth p now po k ans s)"
  from Cons.prems c have ne: "\<not> expired p now r" by simp
  have s1: "map_store ?s1 ident = Some r"
    using authd_kept [OF Cons.prems(1,2) ne, of po k ans] by simp
  have res: "k = ident \<longrightarrow> state (fst (tryAuth p now po k ans s)) = ''success''"
    using authd_success [OF Cons.prems(1,2) ne, of po ans] by auto
  from Cons.prems have "\<forall>c \<in> set calls. \<not> expired p (fst c) r" by simp
  from Cons.IH [OF s1 Cons.prems(2) this]
  have ih: "map_store (snd (tryAuths p calls ?s1)) ident = Some r"
    "\<forall>i < length calls. fst (snd (snd (calls ! i))) = ident \<longrightarrow>
           state (fst (tryAuths p calls ?s1) ! i) = ''success''" by auto
  have "\<forall>i < length (c # calls). fst (snd (snd ((c # calls) ! i))) = ident \<longrightarrow>
           state (fst (tryAuths p (c # calls) s) ! i) = ''success''"
  proof (intro allI impI)
    fix i assume i: "i < length (c # calls)" "fst (snd (snd ((c # calls) ! i))) = ident"
    show "state (fst (tryAuths p (c # calls) s) ! i) = ''success''"
    proof (cases i)
      case 0
      with i res show ?thesis unfolding c tryAuths_Cons by simp
    next
      case (Suc j)
      with i ih(2) show ?thesis unfolding c tryAuths_Cons by simp
    qed
  qed
  moreover have "map_store (snd (tryAuths p (c # calls) s)) ident = Some r"
    using ih(1) unfolding c tryAuths_Cons by simp
  ultimately show ?case by blast
qed

lemma becomes_authd_tryBody:
  assumes "case rec0 of None \<Rightarrow> True | Some r0 \<Rightarrow> \<not> authd r0 \<or> expired p now r0"
    and "snd (tryBody p now po ans rec0) = Some r1" and "authd r1"
  shows "requiredAnswers p \<le> correct r1"
  using assms
  by (cases po; cases rec0)
     (auto simp: tryBody_def handleRegen_def handleNew_def handleAnswer_def Let_def
       set_wrong_def set_correct_def authenticate_def tryDroppingWrong_def
       genCaptchaAndReturn_def genCaptcha_def checkAnswer_def newAuthRecord_def
       split: prod.splits if_splits option.splits sum.splits)

text \<open>
  C6. Once the record of an id is authenticated, it stays exactly as it is through every
  sequence of \<open>tryAuth\<close> calls, for this id or for others, made while it has not expired,
  and each of these calls for the id returns \<open>success\<close> (whatever the answer, and whether
  or not the provider could deliver a challenge). A call that finds the id with no
  authenticated, unexpired record and leaves it with an authenticated one leaves it with a
  correct count of at least \<open>requiredAnswers\<close>.
\<close>

theorem C6_authentication_monotonic:
  "(map_store s ident = Some r \<and> authd r \<and> (\<forall>c \<in> set calls. \<not> expired p (fst c) r) \<longrightarrow>
      map_store (snd (tryAuths p calls s)) ident = Some r
      \<and> length (fst (tryAuths p calls s)) = length calls
      \<and> (\<forall>i < length calls. fst (snd (snd (calls ! i))) = ident \<longrightarrow>
            state (fst (tryAuths p calls s) ! i) = ''success''))
   \<and> (map_store s ident = Some r \<and> authd r \<and> \<not> expired p now r \<longrightarrow>
      fst (tryAuth p now po ident ans s)
        = \<lparr>state = ''success'', info = Some (getInfo p now r), challenge = None\<rparr>
      \<and> map_store (snd (tryAuth p now po ident ans s)) ident = Some r)
   \<and> ((case map_store s1 ident of None \<Rightarrow> True | Some r0 \<Rightarrow> \<not> authd r0 \<or> expired p now r0)
       \<and> map_store (snd (tryAuth p now po ident ans s1)) ident = Some r1 \<and> authd r1 \<longrightarrow>
      requiredAnswers p \<le> correct r1)"
proof -
  have a: "map_store s ident = Some r \<and> authd r \<and> (\<forall>c \<in> set calls. \<not> expired p (fst c) r) \<longrightarrow>
      map_store (snd (tryAuths p calls s)) ident = Some r
      \<and> length (fst (tryAuths p calls s)) = length calls
      \<and> (\<forall>i < length calls. fst (snd (snd (calls ! i))) = ident \<longrightarrow>
            state (fst (tryAuths p calls s) ! i) = ''success'')"
    using authd_monotonic [of s ident r calls p] tryAuths_length [of p calls s] by blast
  have b: "map_store s ident = Some r \<and> authd r \<and> \<not> expired p now r \<longrightarrow>
      fst (tryAuth p now po ident ans s)
        = \<lparr>state = ''success'', info = Some (getInfo p now r), challenge = None\<rparr>
      \<and> map_store (snd (tryAuth p now po ident ans s)) ident = Some r"
    using authd_success [of s ident r p now po ans] authd_kept [of s ident r p now po ident ans]
    by blast
  have c: "(case map_store s1 ident of None \<Rightarrow> True | Some r0 \<Rightarrow> \<not> authd r0 \<or> expired p now r0)
       \<and> map_store (snd (tryAuth p now po ident ans s1)) ident = Some r1 \<and> authd r1 \<longrightarrow>
      requiredAnswers p \<le> correct r1"
    using becomes_authd_tryBody [where ?rec0.0 = "map_store s1 ident" and p = p and now = now
        and po = po and ans = ans and ?r1.0 = r1]
    by (simp add: tryAuth_record)
  from a b c show ?thesis by blast
qed

text \<open>
  \<open>alice\<close> authenticates at time 3000 with one correct answer. A wrong answer, a call of
  another subject, a regeneration request and an answer at the last millisecond before
  expiry leave her record as it is; her three calls return \<open>success\<close>.
\<close>

theorem C6_authentication_monotonic_witness:
  "map_store aliceStore ''alice''
     = Some \<lparr> authd = False, wrong = 0, correct = 0, lastLimitTime = 0,
              lastDownloadTime = 1000, lastAuthTime = 0, captcha = Some ch1 \<rparr>
   \<and> map_store authdStore ''alice''
     = Some \<lparr> authd = True, wrong = 0, correct = 1, lastLimitTime = 0,
              lastDownloadTime = 1000, lastAuthTime = 3000, captcha = Some ch1 \<rparr>
   \<and> requiredAnswers defaultPreferences \<le> 1
   \<and> map_store (snd (tryAuths defaultPreferences
        [(5000, Resolved ch2 5000, ''alice'', ''xx''), (6000, Rejected, ''bob'', []),
         (7000, Resolved ch3 7000, ''alice'', ''regen''), (1803000, Rejected, ''alice'', ''zz'')]
        authdStore)) ''alice''
     = Some \<lparr> authd = True, wrong = 0, correct = 1, lastLimitTime = 0,
              lastDownloadTime = 1000, lastAuthTime = 3000, captcha = Some ch1 \<rparr>
   \<and> map state (fst (tryAuths defaultPreferences
        [(5000, Resolved ch2 5000, ''alice'', ''xx''), (6000, Rejected, ''bob'', []),
         (7000, Resolved ch3 7000, ''alice'', ''regen''), (1803000, Rejected, ''alice'', ''zz'')]
        authdStore))
     = [''success'', ''error'', ''success'', ''success'']
   \<and> state (fst (tryAuth defaultPreferences 5000 (Resolved ch2 5000) ''alice'' ''xx'' authdStore))
     = ''success''"
proof -
  let ?p = defaultPreferences
  let ?r = "\<lparr> authd = True, wrong = 0, correct = 1, lastLimitTime = 0,
              lastDownloadTime = 1000, lastAuthTime = 3000, captcha = Some ch1 \<rparr>"
  let ?calls = "[(5000, Resolved ch2 5000, ''alice'', ''xx''), (6000, Rejected, ''bob'', []),
         (7000, Resolved ch3 7000, ''alice'', ''regen''), (1803000, Rejected, ''alice'', ''zz'')]"
  have au: "authd ?r" by simp
  have ne: "\<forall>c \<in> set ?calls. \<not> expired ?p (fst c) ?r"
    by (simp add: expired_def defaultPreferences_def)
  have ne1: "\<not> expired ?p 5000 ?r" by (simp add: expired_def defaultPreferences_def)
  have pre: "case map_store aliceStore ''alice'' of None \<Rightarrow> True
             | Some r0 \<Rightarrow> \<not> authd r0 \<or> expired ?p 3000 r0"
    by (simp add: alice_record)
  have post: "map_store (snd (tryAuth ?p 3000 (Resolved ch2 3000) ''alice'' ''da'' aliceStore))
      ''alice'' = Some ?r"
    using authd_record by (simp add: authdStore_def)
  note t = C6_authentication_monotonic [where s = authdStore and ident = "''alice''" and r = ?r
      and calls = ?calls and p = ?p and now = 5000 and po = "Resolved ch2 5000" and ans = "''xx''"
      and ?s1.0 = aliceStore and ?r1.0 = ?r]
  note u = C6_authentication_monotonic [where s = authdStore and ident = "''alice''" and r = ?r
      and calls = ?calls and p = ?p and now = 3000 and po = "Resolved ch2 3000" and ans = "''da''"
      and ?s1.0 = aliceStore and ?r1.0 = ?r]
  from u pre post au have req: "requiredAnswers ?p \<le> 1" by simp
  from t authd_record au ne
  have kept: "map_store (snd (tryAuths ?p ?calls authdStore)) ''alice'' = Some ?r" by blast
  from t authd_record au ne1
  have one: "state (fst (tryAuth ?p 5000 (Resolved ch2 5000) ''alice'' ''xx'' authdStore))
     = ''success''" by simp
  have states: "map state (fst (tryAuths ?p ?calls authdStore))
     = [''success'', ''error'', ''success'', ''success'']"
    using checker_accepts by (simp add: auth_eval)
  from alice_record authd_record req kept states one show ?thesis by blast
qed

text \<open>
  The wrong-answer branch of \<open>_handleAnswer\<close>: what it leaves of the record and what it
  returns or throws.
\<close>

lemma wrong_branch:
  assumes "\<not> authd r" "\<not> expired p now r" "\<not> isLimited p r" "\<not> tookTooLong p now r"
    and "captcha r = Some c"
    and "\<not> customChecker p ans (answer c) \<or> wasTooFast p now r"
    and "ans \<noteq> []" "ans \<noteq> ''regen''"
  shows "\<exists>r1. snd (tryBody p now po ans (Some r)) = Some r1
     \<and> wrong r1 = wrong r + 1
     \<and> correct r1 = (if resetOnWrong p then 0 else correct r)
     \<and> authd r1 = (resetOnWrong p \<and> requiredAnswers p \<le> 0)
     \<and> lastAuthTime r1 = (if resetOnWrong p \<and> requiredAnswers p \<le> 0 then now else lastAuthTime r)
     \<and> (if wrong r + 1 > maxWrong p
         then lastLimitTime r1 = now \<and> captcha r1 = captcha r
              \<and> lastDownloadTime r1 = lastDownloadTime r
              \<and> (\<exists>i. fst (tryBody p now po ans (Some r))
                     = Inr \<lparr>state = ''limit'', info = Some i, challenge = None\<rparr>)
         else lastLimitTime r1 = lastLimitTime r
              \<and> (case po of
                    Resolved c1 t1 \<Rightarrow>
                      captcha r1 = Some c1 \<and> lastDownloadTime r1 = t1
                      \<and> (\<exists>i. fst (tryBody p now po ans (Some r))
                            = Inr \<lparr>state = ''wrong'', info = Some i,
                                   challenge = Some (customChallenger p c1)\<rparr>)
                  | Rejected \<Rightarrow>
                      captcha r1 = captcha r \<and> lastDownloadTime r1 = lastDownloadTime r
                      \<and> fst (tryBody p now po ans (Some r)) = Inl ProviderError))"
  using assms
  by (cases po)
     (auto simp: tryBody_def handleAnswer_def Let_def checkAnswer_def
       set_wrong_def set_correct_def authenticate_def isLimited_def
       genCaptchaAndReturn_def genCaptcha_def genReturnValue_def getChallenge_def)

text \<open>
  C8, as amended: an answer (not empty, not \<open>regen\<close>) to the current challenge of a
  record that is neither authenticated nor limited, given in time but less than \<open>tooFast\<close> milliseconds
  after the challenge was issued, takes the wrong-answer branch whatever the checker says
  of it: the wrong count goes up by 1, the correct count is reset to 0 when \<open>resetOnWrong\<close>
  is set, and the state is \<open>limit\<close> when the new count is above \<open>maxWrong\<close>, otherwise
  \<open>wrong\<close> once the provider has delivered the next challenge (\<open>error\<close> if it rejects);
  never \<open>success\<close> or \<open>more\<close>.
\<close>

theorem C8_too_fast_is_wrong:
  assumes "map_store s ident = Some r" and "\<not> authd r" and "\<not> expired p now r"
    and "\<not> isLimited p r" and "\<not> tookTooLong p now r"
    and "captcha r = Some c" and "ans \<noteq> []" and "ans \<noteq> ''regen''"
    and "wasTooFast p now r"
  shows "\<exists>r1. map_store (snd (tryAuth p now po ident ans s)) ident = Some r1
     \<and> wrong r1 = wrong r + 1
     \<and> correct r1 = (if resetOnWrong p then 0 else correct r)
     \<and> state (fst (tryAuth p now po ident ans s))
         = (if wrong r + 1 > maxWrong p then ''limit''
            else case po of Resolved c1 t1 \<Rightarrow> ''wrong'' | Rejected \<Rightarrow> ''error'')
     \<and> state (fst (tryAuth p now po ident ans s)) \<noteq> ''success''
     \<and> state (fst (tryAuth p now po ident ans s)) \<noteq> ''more''"
proof -
  from assms(9) have w: "\<not> customChecker p ans (answer c) \<or> wasTooFast p now r" by simp
  from wrong_branch [OF assms(2-6) w assms(7,8), of po]
  obtain r1 where r1: "snd (tryBody p now po ans (Some r)) = Some r1"
    "wrong r1 = wrong r + 1" "correct r1 = (if resetOnWrong p then 0 else correct r)"
    and st: "if wrong r + 1 > maxWrong p
         then (\<exists>i. fst (tryBody p now po ans (Some r))
                     = Inr \<lparr>state = ''limit'', info = Some i, challenge = None\<rparr>)
         else (case po of
                    Resolved c1 t1 \<Rightarrow>
                      (\<exists>i. fst (tryBody p now po ans (Some r))
                            = Inr \<lparr>state = ''wrong'', info = Some i,
                                   challenge = Some (customChallenger p c1)\<rparr>)
                  | Rejected \<Rightarrow> fst (tryBody p now po ans (Some r)) = Inl ProviderError)"
    by (auto split: if_splits pop.splits)
  have rec: "map_store (snd (tryAuth p now po ident ans s)) ident = Some r1"
    using r1(1) by (simp add: tryAuth_record assms(1))
  have state: "state (fst (tryAuth p now po ident ans s))
         = (if wrong r + 1 > maxWrong p then ''limit''
            else case po of Resolved c1 t1 \<Rightarrow> ''wrong'' | Rejected \<Rightarrow> ''error'')"
    using st by (auto simp: tryAuth_result assms(1) errorResult_def split: if_splits pop.splits)
  then have "state (fst (tryAuth p now po ident ans s)) \<noteq> ''success''"
    "state (fst (tryAuth p now po ident ans s)) \<noteq> ''more''"
    by (simp_all split: pop.splits)
  with rec r1(2,3) state show ?thesis by blast
qed

text \<open>
  \<open>alice\<close> gives the right answer half a second after her challenge was issued: the
  state is \<open>wrong\<close> and her wrong count 1. The same answer after two seconds succeeds.
\<close>

theorem C8_too_fast_is_wrong_witness:
  "map_store aliceStore ''alice''
     = Some \<lparr> authd = False, wrong = 0, correct = 0, lastLimitTime = 0,
              lastDownloadTime = 1000, lastAuthTime = 0, captcha = Some ch1 \<rparr>
   \<and> customChecker defaultPreferences ''da'' (answer ch1)
   \<and> wasTooFast defaultPreferences 1500
        \<lparr> authd = False, wrong = 0, correct = 0, lastLimitTime = 0,
          lastDownloadTime = 1000, lastAuthTime = 0, captcha = Some ch1 \<rparr>
   \<and> state (fst (tryAuth defaultPreferences 1500 (Resolved ch2 1500) ''alice'' ''da'' aliceStore))
       = ''wrong''
   \<and> map_option wrong (map_store (snd (tryAuth defaultPreferences 1500 (Resolved ch2 1500)
        ''alice'' ''da'' aliceStore)) ''alice'') = Some 1
   \<and> map_option correct (map_store (snd (tryAuth defaultPreferences 1500 (Resolved ch2 1500)
        ''alice'' ''da'' aliceStore)) ''alice'') = Some 0
   \<and> state (fst (tryAuth defaultPreferences 3000 (Resolved ch2 3000) ''alice'' ''da'' aliceStore))
       = ''success''"
proof -
  let ?p = defaultPreferences
  let ?r = "\<lparr> authd = False, wrong = 0, correct = 0, lastLimitTime = 0,
          lastDownloadTime = 1000, lastAuthTime = 0, captcha = Some ch1 \<rparr>"
  have h: "\<not> authd ?r" "\<not> expired ?p 1500 ?r" "\<not> isLimited ?p ?r" "\<not> tookTooLong ?p 1500 ?r"
    "captcha ?r = Some ch1" "''da'' \<noteq> []" "''da'' \<noteq> ''regen''" "wasTooFast ?p 1500 ?r"
    by (simp_all add: expired_def isLimited_def tookTooLong_def wasTooFast_def
        defaultPreferences_def)
  have acc: "customChecker ?p ''da'' (answer ch1)"
    using checker_accepts by (simp add: defaultPreferences_def ch1_def)
  from C8_too_fast_is_wrong [OF alice_record h, of "Resolved ch2 1500"]
  obtain r1 where r1:
    "map_store (snd (tryAuth ?p 1500 (Resolved ch2 1500) ''alice'' ''da'' aliceStore)) ''alice''
       = Some r1"
    "wrong r1 = 1" "correct r1 = 0"
    "state (fst (tryAuth ?p 1500 (Resolved ch2 1500) ''alice'' ''da'' aliceStore)) = ''wrong''"
    by (auto simp: defaultPreferences_def)
  have late: "state (fst (tryAuth ?p 3000 (Resolved ch2 3000) ''alice'' ''da'' aliceStore))
       = ''success''"
    using checker_accepts by (simp add: auth_eval)
  from alice_record acc h(8) r1 late show ?thesis by simp
qed

text \<open>
  C8 as stated fails on a limited record. With a wrong count of 3, the right answer given
  too fast takes the count to 4 and limits the record. The same answer, again too fast,
  then returns \<open>limit\<close> before the answer is looked at: the wrong count is not
  incremented, it stays 4, and the record is left as it was.
\<close>

theorem C8_counterexample:
  "map_store hastyStore ''alice''
     = Some \<lparr> authd = False, wrong = 4, correct = 0, lastLimitTime = 6100,
              lastDownloadTime = 6000, lastAuthTime = 0, captcha = Some ch1 \<rparr>
   \<and> customChecker defaultPreferences ''da'' (answer ch1)
   \<and> wasTooFast defaultPreferences 6200
        \<lparr> authd = False, wrong = 4, correct = 0, lastLimitTime = 6100,
          lastDownloadTime = 6000, lastAuthTime = 0, captcha = Some ch1 \<rparr>
   \<and> state (fst (tryAuth defaultPreferences 6200 (Resolved ch3 6200) ''alice'' ''da'' hastyStore))
       = ''limit''
   \<and> map_store (snd (tryAuth defaultPreferences 6200 (Resolved ch3 6200) ''alice'' ''da''
        hastyStore)) ''alice''
     = Some \<lparr> authd = False, wrong = 4, correct = 0, lastLimitTime = 6100,
              lastDownloadTime = 6000, lastAuthTime = 0, captcha = Some ch1 \<rparr>"
proof -
  have rec: "map_store hastyStore ''alice''
     = Some \<lparr> authd = False, wrong = 4, correct = 0, lastLimitTime = 6100,
              lastDownloadTime = 6000, lastAuthTime = 0, captcha = Some ch1 \<rparr>"
    using checker_rejects checker_accepts by (simp add: hastyStore_def auth_eval)
  have acc: "customChecker defaultPreferences ''da'' (answer ch1)"
    using checker_accepts by (simp add: defaultPreferences_def ch1_def)
  have fast: "wasTooFast defaultPreferences 6200
        \<lparr> authd = False, wrong = 4, correct = 0, lastLimitTime = 6100,
          lastDownloadTime = 6000, lastAuthTime = 0, captcha = Some ch1 \<rparr>"
    by (simp add: wasTooFast_def defaultPreferences_def)
  have st: "state (fst (tryAuth defaultPreferences 6200 (Resolved ch3 6200) ''alice'' ''da''
        hastyStore)) = ''limit''"
    by (simp add: tryAuth_result rec) (simp add: auth_eval)
  have after: "map_store (snd (tryAuth defaultPreferences 6200 (Resolved ch3 6200) ''alice'' ''da''
        hastyStore)) ''alice''
     = Some \<lparr> authd = False, wrong = 4, correct = 0, lastLimitTime = 6100,
              lastDownloadTime = 6000, lastAuthTime = 0, captcha = Some ch1 \<rparr>"
    by (simp add: tryAuth_record rec) (simp add: auth_eval)
  from rec acc fast st after show ?thesis by blast
qed

text \<open>
  One call with a wrong answer, and one call after the cooldown of a limited record, as
  \<open>tryAuth\<close> sees them.
\<close>

lemma wrong_call:
  assumes "map_store s ident = Some r" and "\<not> authd r" and "lastAuthTime r = 0"
    and "\<not> isLimited p r" and "now - lastDownloadTime r \<le> answerTimeout p"
    and "captcha r = Some c"
    and "\<not> customChecker p ans (answer c) \<or> now - lastDownloadTime r < tooFast p"
    and "ans \<noteq> []" "ans \<noteq> ''regen''"
    and "0 < requiredAnswers p \<or> \<not> resetOnWrong p"
  shows "\<exists>r1. map_store (snd (tryAuth p now (Resolved c1 t1) ident ans s)) ident = Some r1
     \<and> \<not> authd r1 \<and> lastAuthTime r1 = 0 \<and> wrong r1 = wrong r + 1
     \<and> (if wrong r + 1 > maxWrong p
         then lastLimitTime r1 = now
           \<and> state (fst (tryAuth p now (Resolved c1 t1) ident ans s)) = ''limit''
         else captcha r1 = Some c1 \<and> lastDownloadTime r1 = t1
           \<and> state (fst (tryAuth p now (Resolved c1 t1) ident ans s)) = ''wrong''
           \<and> challenge (fst (tryAuth p now (Resolved c1 t1) ident ans s))
               = Some (customChallenger p c1))"
proof -
  have ne: "\<not> expired p now r" using assms(3) by (simp add: expired_def)
  have tl: "\<not> tookTooLong p now r" using assms(5) by (simp add: tookTooLong_def)
  have w: "\<not> customChecker p ans (answer c) \<or> wasTooFast p now r"
    using assms(7) by (simp add: wasTooFast_def)
  from wrong_branch [OF assms(2) ne assms(4) tl assms(6) w assms(8,9), of "Resolved c1 t1"]
    assms(3,10)
  show ?thesis
    by (auto simp: tryAuth_record tryAuth_result assms(1) split: if_splits)
qed

lemma cooldown_call:
  assumes "map_store s ident = Some r" and "\<not> authd r" and "lastAuthTime r = 0"
    and "isLimited p r" and "now - lastLimitTime r > dropWrongAfter p" and "0 \<le> maxWrong p"
  shows "\<exists>r1. map_store (snd (tryAuth p now (Resolved c1 t1) ident ans s)) ident = Some r1
     \<and> wrong r1 = 0 \<and> captcha r1 = Some c1 \<and> lastDownloadTime r1 = t1
     \<and> state (fst (tryAuth p now (Resolved c1 t1) ident ans s)) = ''new''
     \<and> challenge (fst (tryAuth p now (Resolved c1 t1) ident ans s))
         = Some (customChallenger p c1)"
  using assms
  by (auto simp: tryAuth_record tryAuth_result tryBody_def expired_def handleRegen_def
      handleNew_def handleAnswer_def Let_def set_wrong_def tryDroppingWrong_def isLimited_def
      genCaptchaAndReturn_def genCaptcha_def genReturnValue_def getChallenge_def)

text \<open>
  C7. With \<open>maxWrong = 3\<close> and a fresh record (not authenticated, no wrong answer, a
  challenge issued), four wrong answers in a row, each neither empty nor \<open>regen\<close>, each
  given within \<open>answerTimeout\<close> of the challenge it answers, each rejected by the checker
  or too fast, return \<open>wrong\<close>, \<open>wrong\<close>, \<open>wrong\<close> and \<open>limit\<close>; the record is then limited
  with a wrong count of 4 and the onset at the time of the fourth call. A fifth call more
  than \<open>dropWrongAfter\<close> milliseconds after the fourth, whatever its answer, sets the wrong
  count to exactly 0 and returns \<open>new\<close> with the challenge the provider delivers. The
  provider delivers a challenge whenever one is awaited, and the preferences do not make a
  reset of the correct count authenticate (\<open>requiredAnswers\<close> is positive, or
  \<open>resetOnWrong\<close> is off).
\<close>

theorem C7_four_wrong_then_cooldown:
  assumes cfg: "maxWrong p = 3" "0 < requiredAnswers p \<or> \<not> resetOnWrong p"
    and fresh: "map_store s ident = Some r0" "\<not> authd r0" "lastAuthTime r0 = 0"
      "wrong r0 = 0" "captcha r0 = Some c0"
    and answers: "a1 \<noteq> [] \<and> a1 \<noteq> ''regen''" "a2 \<noteq> [] \<and> a2 \<noteq> ''regen''"
      "a3 \<noteq> [] \<and> a3 \<noteq> ''regen''" "a4 \<noteq> [] \<and> a4 \<noteq> ''regen''"
    and wrongs: "\<not> customChecker p a1 (answer c0) \<or> n1 - lastDownloadTime r0 < tooFast p"
      "\<not> customChecker p a2 (answer c1) \<or> n2 - t1 < tooFast p"
      "\<not> customChecker p a3 (answer c2) \<or> n3 - t2 < tooFast p"
      "\<not> customChecker p a4 (answer c3) \<or> n4 - t3 < tooFast p"
    and intime: "n1 - lastDownloadTime r0 \<le> answerTimeout p" "n2 - t1 \<le> answerTimeout p"
      "n3 - t2 \<le> answerTimeout p" "n4 - t3 \<le> answerTimeout p"
    and cooldown: "n5 - n4 > dropWrongAfter p"
  shows "map state (fst (tryAuths p
            [(n1, Resolved c1 t1, ident, a1), (n2, Resolved c2 t2, ident, a2),
             (n3, Resolved c3 t3, ident, a3), (n4, Resolved c4 t4, ident, a4)] s))
          = [''wrong'', ''wrong'', ''wrong'', ''limit'']
     \<and> (\<exists>r4. map_store (snd (tryAuths p
            [(n1, Resolved c1 t1, ident, a1), (n2, Resolved c2 t2, ident, a2),
             (n3, Resolved c3 t3, ident, a3), (n4, Resolved c4 t4, ident, a4)] s)) ident = Some r4
          \<and> wrong r4 = 4 \<and> isLimited p r4 \<and> lastLimitTime r4 = n4)
     \<and> map state (fst (tryAuths p
            [(n1, Resolved c1 t1, ident, a1), (n2, Resolved c2 t2, ident, a2),
             (n3, Resolved c3 t3, ident, a3), (n4, Resolved c4 t4, ident, a4),
             (n5, Resolved c5 t5, ident, a5)] s))
          = [''wrong'', ''wrong'', ''wrong'', ''limit'', ''new'']
     \<and> challenge (last (fst (tryAuths p
            [(n1, Resolved c1 t1, ident, a1), (n2, Resolved c2 t2, ident, a2),
             (n3, Resolved c3 t3, ident, a3), (n4, Resolved c4 t4, ident, a4),
             (n5, Resolved c5 t5, ident, a5)] s)))
          = Some (customChallenger p c5)
     \<and> (\<exists>r5. map_store (snd (tryAuths p
            [(n1, Resolved c1 t1, ident, a1), (n2, Resolved c2 t2, ident, a2),
             (n3, Resolved c3 t3, ident, a3), (n4, Resolved c4 t4, ident, a4),
             (n5, Resolved c5 t5, ident, a5)] s)) ident = Some r5
          \<and> wrong r5 = 0 \<and> captcha r5 = Some c5 \<and> lastDownloadTime r5 = t5)"
proof -
  let ?s1 = "snd (tryAuth p n1 (Resolved c1 t1) ident a1 s)"
  let ?s2 = "snd (tryAuth p n2 (Resolved c2 t2) ident a2 ?s1)"
  let ?s3 = "snd (tryAuth p n3 (Resolved c3 t3) ident a3 ?s2)"
  let ?s4 = "snd (tryAuth p n4 (Resolved c4 t4) ident a4 ?s3)"
  let ?s5 = "snd (tryAuth p n5 (Resolved c5 t5) ident a5 ?s4)"
  have nl0: "\<not> isLimited p r0" using cfg(1) fresh(4) by (simp add: isLimited_def)
  from wrong_call [where s = s and ident = ident and r = r0 and p = p and now = n1 and c = c0
      and ans = a1 and ?c1.0 = c1 and ?t1.0 = t1]
    fresh nl0 intime(1) wrongs(1) answers(1) cfg
  obtain r1 where r1: "map_store ?s1 ident = Some r1" "\<not> authd r1" "lastAuthTime r1 = 0"
    "wrong r1 = 1" "captcha r1 = Some c1" "lastDownloadTime r1 = t1"
    and st1: "state (fst (tryAuth p n1 (Resolved c1 t1) ident a1 s)) = ''wrong''"
    by auto
  have nl1: "\<not> isLimited p r1" using cfg(1) r1(4) by (simp add: isLimited_def)
  from wrong_call [where s = ?s1 and ident = ident and r = r1 and p = p and now = n2 and c = c1
      and ans = a2 and ?c1.0 = c2 and ?t1.0 = t2]
    r1 nl1 intime(2) wrongs(2) answers(2) cfg
  obtain r2 where r2: "map_store ?s2 ident = Some r2" "\<not> authd r2" "lastAuthTime r2 = 0"
    "wrong r2 = 2" "captcha r2 = Some c2" "lastDownloadTime r2 = t2"
    and st2: "state (fst (tryAuth p n2 (Resolved c2 t2) ident a2 ?s1)) = ''wrong''"
    by auto
  have nl2: "\<not> isLimited p r2" using cfg(1) r2(4) by (simp add: isLimited_def)
  from wrong_call [where s = ?s2 and ident = ident and r = r2 and p = p and now = n3 and c = c2
      and ans = a3 and ?c1.0 = c3 and ?t1.0 = t3]
    r2 nl2 intime(3) wrongs(3) answers(3) cfg
  obtain r3 where r3: "map_store ?s3 ident = Some r3" "\<not> authd r3" "lastAuthTime r3 = 0"
    "wrong r3 = 3" "captcha r3 = Some c3" "lastDownloadTime r3 = t3"
    and st3: "state (fst (tryAuth p n3 (Resolved c3 t3) ident a3 ?s2)) = ''wrong''"
    by auto
  have nl3: "\<not> isLimited p r3" using cfg(1) r3(4) by (simp add: isLimited_def)
  from wrong_call [where s = ?s3 and ident = ident and r = r3 and p = p and now = n4 and c = c3
      and ans = a4 and ?c1.0 = c4 and ?t1.0 = t4]
    r3 nl3 intime(4) wrongs(4) answers(4) cfg
  obtain r4 where r4: "map_store ?s4 ident = Some r4" "\<not> authd r4" "lastAuthTime r4 = 0"
    "wrong r4 = 4" "lastLimitTime r4 = n4"
    and st4: "state (fst (tryAuth p n4 (Resolved c4 t4) ident a4 ?s3)) = ''limit''"
    by auto
  have l4: "isLimited p r4" using cfg(1) r4(4) by (simp add: isLimited_def)
  have mw: "0 \<le> maxWrong p" using cfg(1) by simp
  from cooldown_call [where s = ?s4 and ident = ident and r = r4 and p = p and now = n5
      and ?c1.0 = c5 and ?t1.0 = t5 and ans = a5]
    r4 l4 mw cooldown
  obtain r5 where r5: "map_store ?s5 ident = Some r5" "wrong r5 = 0" "captcha r5 = Some c5"
    "lastDownloadTime r5 = t5"
    and st5: "state (fst (tryAuth p n5 (Resolved c5 t5) ident a5 ?s4)) = ''new''"
      "challenge (fst (tryAuth p n5 (Resolved c5 t5) ident a5 ?s4)) = Some (customChallenger p c5)"
    by auto
  have A: "map state (fst (tryAuths p
            [(n1, Resolved c1 t1, ident, a1), (n2, Resolved c2 t2, ident, a2),
             (n3, Resolved c3 t3, ident, a3), (n4, Resolved c4 t4, ident, a4)] s))
          = [''wrong'', ''wrong'', ''wrong'', ''limit'']"
    unfolding tryAuths_Cons using st1 st2 st3 st4 by simp
  have B: "map_store (snd (tryAuths p
            [(n1, Resolved c1 t1, ident, a1), (n2, Resolved c2 t2, ident, a2),
             (n3, Resolved c3 t3, ident, a3), (n4, Resolved c4 t4, ident, a4)] s)) ident = Some r4"
    unfolding tryAuths_Cons using r4(1) by simp
  have C: "map state (fst (tryAuths p
            [(n1, Resolved c1 t1, ident, a1), (n2, Resolved c2 t2, ident, a2),
             (n3, Resolved c3 t3, ident, a3), (n4, Resolved c4 t4, ident, a4),
             (n5, Resolved c5 t5, ident, a5)] s))
          = [''wrong'', ''wrong'', ''wrong'', ''limit'', ''new'']"
    unfolding tryAuths_Cons using st1 st2 st3 st4 st5 by simp
  have D: "challenge (last (fst (tryAuths p
            [(n1, Resolved c1 t1, ident, a1), (n2, Resolved c2 t2, ident, a2),
             (n3, Resolved c3 t3, ident, a3), (n4, Resolved c4 t4, ident, a4),
             (n5, Resolved c5 t5, ident, a5)] s)))
          = Some (customChallenger p c5)"
    unfolding tryAuths_Cons using st5 by simp
  have E: "map_store (snd (tryAuths p
            [(n1, Resolved c1 t1, ident, a1), (n2, Resolved c2 t2, ident, a2),
             (n3, Resolved c3 t3, ident, a3), (n4, Resolved c4 t4, ident, a4),
             (n5, Resolved c5 t5, ident, a5)] s)) ident = Some r5"
    unfolding tryAuths_Cons using r5(1) by simp
  from A B C D E r4 l4 r5 show ?thesis by blast
qed

text \<open>
  \<open>alice\<close> under the default preferences: four times \<open>xx\<close>, two seconds apart, then a
  fifth call twelve seconds after the fourth.
\<close>

theorem C7_four_wrong_then_cooldown_witness:
  "maxWrong defaultPreferences = 3
   \<and> map_store aliceStore ''alice''
       = Some \<lparr> authd = False, wrong = 0, correct = 0, lastLimitTime = 0,
                lastDownloadTime = 1000, lastAuthTime = 0, captcha = Some ch1 \<rparr>
   \<and> \<not> customChecker defaultPreferences ''xx'' (answer ch1)
   \<and> (20000::int) - 8000 > dropWrongAfter defaultPreferences
   \<and> map state (fst (tryAuths defaultPreferences fourWrong aliceStore))
       = [''wrong'', ''wrong'', ''wrong'', ''limit'']
   \<and> map_option wrong (map_store (snd (tryAuths defaultPreferences fourWrong aliceStore))
        ''alice'') = Some 4
   \<and> map state (fst (tryAuths defaultPreferences
          (fourWrong @ [(20000, Resolved ch3 20000, ''alice'', ''xx'')]) aliceStore))
       = [''wrong'', ''wrong'', ''wrong'', ''limit'', ''new'']
   \<and> challenge (last (fst (tryAuths defaultPreferences
          (fourWrong @ [(20000, Resolved ch3 20000, ''alice'', ''xx'')]) aliceStore)))
       = Some ''png3''
   \<and> map_option wrong (map_store (snd (tryAuths defaultPreferences
          (fourWrong @ [(20000, Resolved ch3 20000, ''alice'', ''xx'')]) aliceStore)) ''alice'')
       = Some 0"
proof -
  let ?p = defaultPreferences
  let ?r0 = "\<lparr> authd = False, wrong = 0, correct = 0, lastLimitTime = 0,
                lastDownloadTime = 1000, lastAuthTime = 0, captcha = Some ch1 \<rparr>"
  have cfg: "maxWrong ?p = 3" "0 < requiredAnswers ?p \<or> \<not> resetOnWrong ?p"
    by (simp_all add: defaultPreferences_def)
  have fresh: "\<not> authd ?r0" "lastAuthTime ?r0 = 0" "wrong ?r0 = 0" "captcha ?r0 = Some ch1"
    by simp_all
  have ans: "''xx'' \<noteq> [] \<and> ''xx'' \<noteq> ''regen''" by simp
  have w1: "\<not> customChecker ?p ''xx'' (answer ch1) \<or> 2000 - lastDownloadTime ?r0 < tooFast ?p"
    and w2: "\<not> customChecker ?p ''xx'' (answer ch2) \<or> (4000::int) - 2000 < tooFast ?p"
    and w3: "\<not> customChecker ?p ''xx'' (answer ch3) \<or> (6000::int) - 4000 < tooFast ?p"
    and w4: "\<not> customChecker ?p ''xx'' (answer ch1) \<or> (8000::int) - 6000 < tooFast ?p"
    and nc: "\<not> customChecker ?p ''xx'' (answer ch1)"
    using checker_rejects by (simp_all add: defaultPreferences_def ch1_def ch2_def ch3_def)
  have it: "2000 - lastDownloadTime ?r0 \<le> answerTimeout ?p"
    "(4000::int) - 2000 \<le> answerTimeout ?p" "(6000::int) - 4000 \<le> answerTimeout ?p"
    "(8000::int) - 6000 \<le> answerTimeout ?p"
    by (simp_all add: defaultPreferences_def)
  have cd: "(20000::int) - 8000 > dropWrongAfter ?p" by (simp add: defaultPreferences_def)
  have five: "fourWrong @ [(20000, Resolved ch3 20000, ''alice'', ''xx'')]
     = [(2000, Resolved ch2 2000, ''alice'', ''xx''), (4000, Resolved ch3 4000, ''alice'', ''xx''),
        (6000, Resolved ch1 6000, ''alice'', ''xx''), (8000, Resolved ch2 8000, ''alice'', ''xx''),
        (20000, Resolved ch3 20000, ''alice'', ''xx'')]"
    by (simp add: fourWrong_def)
  note t = C7_four_wrong_then_cooldown [where p = ?p and s = aliceStore and ident = "''alice''"
      and ?r0.0 = ?r0 and ?c0.0 = ch1
      and ?a1.0 = "''xx''" and ?a2.0 = "''xx''" and ?a3.0 = "''xx''" and ?a4.0 = "''xx''"
      and ?a5.0 = "''xx''"
      and ?n1.0 = 2000 and ?c1.0 = ch2 and ?t1.0 = 2000
      and ?n2.0 = 4000 and ?c2.0 = ch3 and ?t2.0 = 4000
      and ?n3.0 = 6000 and ?c3.0 = ch1 and ?t3.0 = 6000
      and ?n4.0 = 8000 and ?c4.0 = ch2 and ?t4.0 = 8000
      and ?n5.0 = 20000 and ?c5.0 = ch3 and ?t5.0 = 20000,
      OF cfg alice_record fresh ans ans ans ans w1 w2 w3 w4 it cd]
  from t have "map state (fst (tryAuths ?p fourWrong aliceStore))
       = [''wrong'', ''wrong'', ''wrong'', ''limit'']"
    "map_option wrong (map_store (snd (tryAuths ?p fourWrong aliceStore)) ''alice'') = Some 4"
    "map state (fst (tryAuths ?p
          (fourWrong @ [(20000, Resolved ch3 20000, ''alice'', ''xx'')]) aliceStore))
       = [''wrong'', ''wrong'', ''wrong'', ''limit'', ''new'']"
    "challenge (last (fst (tryAuths ?p
          (fourWrong @ [(20000, Resolved ch3 20000, ''alice'', ''xx'')]) aliceStore)))
       = Some ''png3''"
    "map_option wrong (map_store (snd (tryAuths ?p
          (fourWrong @ [(20000, Resolved ch3 20000, ''alice'', ''xx'')]) aliceStore)) ''alice'')
       = Some 0"
    unfolding five unfolding fourWrong_def
    by (auto simp: defaultPreferences_def ch3_def)
  with cfg(1) alice_record nc cd show ?thesis by blast
qed

text \<open>
  A rejected pop against a resolved one, on the same record at the same time: the cascade
  either throws the provider's rejection or does what it does when the pop resolves, and
  it leaves the same counters either way.
\<close>

lemmas cascade_defs = tryBody_def handleRegen_def handleNew_def handleAnswer_def Let_def
  genCaptchaAndReturn_def genCaptcha_def

lemma rejected_or_same:
  "fst (tryBody p now Rejected ans rec) = Inl ProviderError
   \<or> fst (tryBody p now Rejected ans rec) = fst (tryBody p now (Resolved c t) ans rec)"
  by (cases rec)
     (auto simp: cascade_defs split: sum.splits)

lemma rejected_counters:
  assumes "\<not> expired p now r"
  shows "\<exists>r1 r2. snd (tryBody p now Rejected ans (Some r)) = Some r1
     \<and> snd (tryBody p now (Resolved c t) ans (Some r)) = Some r2
     \<and> authd r1 = authd r2 \<and> wrong r1 = wrong r2 \<and> correct r1 = correct r2
     \<and> lastLimitTime r1 = lastLimitTime r2 \<and> lastAuthTime r1 = lastAuthTime r2"
  using assms
  by (auto simp: cascade_defs split: sum.splits)

lemma rejected_new:
  assumes "case rec of None \<Rightarrow> True | Some r \<Rightarrow> expired p now r"
  shows "tryBody p now Rejected ans rec = (Inl ProviderError, None)"
  using assms
  by (cases rec) (auto simp: cascade_defs)

text \<open>
  C1. \<open>tryAuth\<close> has a result for every id, answer, store, clock and provider outcome:
  whatever the \<open>try\<close> block throws becomes the result with state \<open>error\<close>, and what the
  block returns is returned as it is. The store holds for the id what the block left
  there, also when it threw. When the provider rejects the pop, the call returns the error
  result, or exactly what it returns when the pop resolves (the branch awaited no
  challenge); the record of the id, if there was an unexpired one, has the same
  authenticated flag, counters and limit and authentication times as after the call with
  a resolved pop: nothing the cascade did before the failure is rolled back. With no
  record, or an expired one, the call returns the error result and stores no record.
\<close>

theorem C1_tryAuth_never_throws:
  "(fst (tryBody p now po ans (map_store s ident)) = Inl e \<longrightarrow>
      fst (tryAuth p now po ident ans s) = errorResult)
   \<and> (fst (tryBody p now po ans (map_store s ident)) = Inr res \<longrightarrow>
      fst (tryAuth p now po ident ans s) = res)
   \<and> state errorResult = ''error''
   \<and> map_store (snd (tryAuth p now po ident ans s)) ident
       = snd (tryBody p now po ans (map_store s ident))
   \<and> (fst (tryAuth p now Rejected ident ans s) = errorResult
       \<or> fst (tryAuth p now Rejected ident ans s)
           = fst (tryAuth p now (Resolved c t) ident ans s))
   \<and> (map_store s ident = Some r \<and> \<not> expired p now r \<longrightarrow>
        (\<exists>r1 r2. map_store (snd (tryAuth p now Rejected ident ans s)) ident = Some r1
           \<and> map_store (snd (tryAuth p now (Resolved c t) ident ans s)) ident = Some r2
           \<and> authd r1 = authd r2 \<and> wrong r1 = wrong r2 \<and> correct r1 = correct r2
           \<and> lastLimitTime r1 = lastLimitTime r2 \<and> lastAuthTime r1 = lastAuthTime r2))
   \<and> ((case map_store s ident of None \<Rightarrow> True | Some r0 \<Rightarrow> expired p now r0) \<longrightarrow>
        fst (tryAuth p now Rejected ident ans s) = errorResult
        \<and> map_store (snd (tryAuth p now Rejected ident ans s)) ident = None)"
proof -
  have a: "fst (tryBody p now po ans (map_store s ident)) = Inl e \<longrightarrow>
      fst (tryAuth p now po ident ans s) = errorResult"
    "fst (tryBody p now po ans (map_store s ident)) = Inr res \<longrightarrow>
      fst (tryAuth p now po ident ans s) = res"
    by (simp_all add: tryAuth_result)
  have b: "state errorResult = ''error''" by (simp add: errorResult_def)
  have c: "map_store (snd (tryAuth p now po ident ans s)) ident
       = snd (tryBody p now po ans (map_store s ident))"
    by (rule tryAuth_record)
  have d: "fst (tryAuth p now Rejected ident ans s) = errorResult
       \<or> fst (tryAuth p now Rejected ident ans s)
           = fst (tryAuth p now (Resolved c t) ident ans s)"
    using rejected_or_same [where p = p and now = now and ans = ans
        and rec = "map_store s ident" and c = c and t = t]
    by (auto simp: tryAuth_result)
  have e: "map_store s ident = Some r \<and> \<not> expired p now r \<longrightarrow>
        (\<exists>r1 r2. map_store (snd (tryAuth p now Rejected ident ans s)) ident = Some r1
           \<and> map_store (snd (tryAuth p now (Resolved c t) ident ans s)) ident = Some r2
           \<and> authd r1 = authd r2 \<and> wrong r1 = wrong r2 \<and> correct r1 = correct r2
           \<and> lastLimitTime r1 = lastLimitTime r2 \<and> lastAuthTime r1 = lastAuthTime r2)"
    using rejected_counters [where p = p and now = now and r = r and ans = ans and c = c and t = t]
    by (auto simp: tryAuth_record)
  have f: "(case map_store s ident of None \<Rightarrow> True | Some r0 \<Rightarrow> expired p now r0) \<longrightarrow>
        fst (tryAuth p now Rejected ident ans s) = errorResult
        \<and> map_store (snd (tryAuth p now Rejected ident ans s)) ident = None"
    using rejected_new [where rec = "map_store s ident" and p = p and now = now and ans = ans]
    by (simp add: tryAuth_result tryAuth_record)
  from a b c d e f show ?thesis by blast
qed

text \<open>
  \<open>alice\<close> asks for a new challenge and the provider fails: the state is \<open>error\<close>, and
  the penalty of one half stays on her record, as it does when the provider delivers.
  \<open>bob\<close>, who has no record, gets the error result and no record.
\<close>

theorem C1_tryAuth_never_throws_witness:
  "map_store aliceStore ''alice''
     = Some \<lparr> authd = False, wrong = 0, correct = 0, lastLimitTime = 0,
              lastDownloadTime = 1000, lastAuthTime = 0, captcha = Some ch1 \<rparr>
   \<and> fst (tryBody defaultPreferences 3000 Rejected ''regen'' (map_store aliceStore ''alice''))
       = Inl ProviderError
   \<and> fst (tryAuth defaultPreferences 3000 Rejected ''alice'' ''regen'' aliceStore) = errorResult
   \<and> map_option wrong
        (map_store (snd (tryAuth defaultPreferences 3000 Rejected ''alice'' ''regen'' aliceStore))
           ''alice'') = Some (1 / 2)
   \<and> state (fst (tryAuth defaultPreferences 3000 (Resolved ch2 3000) ''alice'' ''regen''
        aliceStore)) = ''new''
   \<and> map_option wrong
        (map_store (snd (tryAuth defaultPreferences 3000 (Resolved ch2 3000) ''alice'' ''regen''
           aliceStore)) ''alice'') = Some (1 / 2)
   \<and> map_store emptyStore ''bob'' = None
   \<and> fst (tryAuth defaultPreferences 3000 Rejected ''bob'' ''xx'' emptyStore) = errorResult
   \<and> map_store (snd (tryAuth defaultPreferences 3000 Rejected ''bob'' ''xx'' emptyStore)) ''bob''
       = None"
proof -
  let ?p = defaultPreferences
  let ?r = "\<lparr> authd = False, wrong = 0, correct = 0, lastLimitTime = 0,
              lastDownloadTime = 1000, lastAuthTime = 0, captcha = Some ch1 \<rparr>"
  have ne: "\<not> expired ?p 3000 ?r" by (simp add: expired_def)
  have body: "fst (tryBody ?p 3000 Rejected ''regen'' (map_store aliceStore ''alice''))
       = Inl ProviderError"
    by (simp add: alice_record) (simp add: auth_eval)
  have ok: "state (fst (tryAuth ?p 3000 (Resolved ch2 3000) ''alice'' ''regen'' aliceStore))
      = ''new''"
    "map_option wrong (map_store (snd (tryAuth ?p 3000 (Resolved ch2 3000) ''alice'' ''regen''
           aliceStore)) ''alice'') = Some (1 / 2)"
    by (simp_all add: tryAuth_result tryAuth_record alice_record) (simp_all add: auth_eval)
  have bob: "map_store emptyStore ''bob'' = None" by (simp add: emptyStore_def)
  note t = C1_tryAuth_never_throws [where p = ?p and now = 3000 and po = Rejected
      and ans = "''regen''" and s = aliceStore and ident = "''alice''" and e = ProviderError
      and res = errorResult and r = ?r and c = ch2 and t = 3000]
  note u = C1_tryAuth_never_throws [where p = ?p and now = 3000 and po = Rejected
      and ans = "''xx''" and s = emptyStore and ident = "''bob''" and e = ProviderError
      and res = errorResult and r = ?r and c = ch2 and t = 3000]
  from t body have err: "fst (tryAuth ?p 3000 Rejected ''alice'' ''regen'' aliceStore) = errorResult"
    by blast
  from t alice_record ne obtain r1 r2 where
    "map_store (snd (tryAuth ?p 3000 Rejected ''alice'' ''regen'' aliceStore)) ''alice'' = Some r1"
    "map_store (snd (tryAuth ?p 3000 (Resolved ch2 3000) ''alice'' ''regen'' aliceStore)) ''alice''
       = Some r2"
    "wrong r1 = wrong r2"
    by blast
  with ok(2) have kept: "map_option wrong
        (map_store (snd (tryAuth ?p 3000 Rejected ''alice'' ''regen'' aliceStore)) ''alice'')
      = Some (1 / 2)"
    by simp
  have pre: "case map_store emptyStore ''bob'' of None \<Rightarrow> True
             | Some r0 \<Rightarrow> expired ?p 3000 r0"
    by (simp add: bob)
  from u pre have nb: "fst (tryAuth ?p 3000 Rejected ''bob'' ''xx'' emptyStore) = errorResult"
    "map_store (snd (tryAuth ?p 3000 Rejected ''bob'' ''xx'' emptyStore)) ''bob'' = None"
    by blast+
  from alice_record body err kept ok bob nb show ?thesis by blast
qed

end
